theory Spec2Isabelle
  imports Complex_Main
begin

section \<open>JavaScript numbers\<close>

text \<open>
  The scripts compute with JavaScript numbers. A number is modelled as an exact real,
  one of the two infinities, or NaN, so that every division of the source, also a
  division by zero, has the value the language gives it. Rounding and overflow of the
  64-bit representation are not modelled, and there is one zero: the sums of the
  source start from \<open>0\<close> and a sum that starts from \<open>+0\<close> is never \<open>-0\<close>.
\<close>

datatype jsnum = Num real | PosInf | NegInf | NaN

fun jneg :: "jsnum \<Rightarrow> jsnum" where
  "jneg (Num a) = Num (- a)"
| "jneg PosInf = NegInf"
| "jneg NegInf = PosInf"
| "jneg NaN = NaN"

fun jadd :: "jsnum \<Rightarrow> jsnum \<Rightarrow> jsnum" where
  "jadd (Num a) (Num b) = Num (a + b)"
| "jadd NaN _ = NaN"
| "jadd _ NaN = NaN"
| "jadd PosInf NegInf = NaN"
| "jadd NegInf PosInf = NaN"
| "jadd PosInf _ = PosInf"
| "jadd _ PosInf = PosInf"
| "jadd NegInf _ = NegInf"
| "jadd _ NegInf = NegInf"

definition jsub :: "jsnum \<Rightarrow> jsnum \<Rightarrow> jsnum" where
  "jsub a b = jadd a (jneg b)"

text \<open>The sign of a number that is not NaN: \<open>-1\<close>, \<open>0\<close> or \<open>1\<close>.\<close>

fun sgn_of :: "jsnum \<Rightarrow> int" where
  "sgn_of (Num a) = (if a < 0 then - 1 else if a = 0 then 0 else 1)"
| "sgn_of PosInf = 1"
| "sgn_of NegInf = - 1"
| "sgn_of NaN = 0"

definition inf_of_sign :: "int \<Rightarrow> jsnum" where
  "inf_of_sign s = (if s < 0 then NegInf else if s = 0 then NaN else PosInf)"

fun jmul :: "jsnum \<Rightarrow> jsnum \<Rightarrow> jsnum" where
  "jmul (Num a) (Num b) = Num (a * b)"
| "jmul NaN _ = NaN"
| "jmul _ NaN = NaN"
| "jmul a b = inf_of_sign (sgn_of a * sgn_of b)"

fun jdiv :: "jsnum \<Rightarrow> jsnum \<Rightarrow> jsnum" where
  "jdiv (Num a) (Num b) = (if b = 0 then inf_of_sign (sgn_of (Num a)) else Num (a / b))"
| "jdiv NaN _ = NaN"
| "jdiv _ NaN = NaN"
| "jdiv (Num a) _ = Num 0"
| "jdiv a (Num b) = (if b < 0 then jneg a else a)"
| "jdiv _ _ = NaN"

fun jlt :: "jsnum \<Rightarrow> jsnum \<Rightarrow> bool" where
  "jlt (Num a) (Num b) = (a < b)"
| "jlt NaN _ = False"
| "jlt _ NaN = False"
| "jlt _ NegInf = False"
| "jlt NegInf _ = True"
| "jlt PosInf _ = False"
| "jlt _ PosInf = True"

definition jgt :: "jsnum \<Rightarrow> jsnum \<Rightarrow> bool" where
  "jgt a b = jlt b a"

fun jle :: "jsnum \<Rightarrow> jsnum \<Rightarrow> bool" where
  "jle NaN _ = False"
| "jle _ NaN = False"
| "jle a b = (\<not> jlt b a)"

definition jge :: "jsnum \<Rightarrow> jsnum \<Rightarrow> bool" where
  "jge a b = jle b a"

text \<open>\<open>Math.max\<close> and \<open>Math.min\<close> of two arguments: NaN if either is NaN.\<close>

fun Math_max :: "jsnum \<Rightarrow> jsnum \<Rightarrow> jsnum" where
  "Math_max NaN _ = NaN"
| "Math_max _ NaN = NaN"
| "Math_max a b = (if jlt a b then b else a)"

fun Math_min :: "jsnum \<Rightarrow> jsnum \<Rightarrow> jsnum" where
  "Math_min NaN _ = NaN"
| "Math_min _ NaN = NaN"
| "Math_min a b = (if jlt b a then b else a)"

fun Math_abs :: "jsnum \<Rightarrow> jsnum" where
  "Math_abs (Num a) = Num \<bar>a\<bar>"
| "Math_abs NaN = NaN"
| "Math_abs _ = PosInf"

fun Math_sign :: "jsnum \<Rightarrow> jsnum" where
  "Math_sign NaN = NaN"
| "Math_sign a = Num (of_int (sgn_of a))"

fun isNaN :: "jsnum \<Rightarrow> bool" where
  "isNaN NaN = True"
| "isNaN _ = False"

text \<open>A number in a condition (\<open>if (adj)\<close>, \<open>x || 1\<close>): zero and NaN are false.\<close>

fun truthy :: "jsnum \<Rightarrow> bool" where
  "truthy (Num a) = (a \<noteq> 0)"
| "truthy NaN = False"
| "truthy _ = True"

text \<open>\<open>a !== 0\<close> on numbers: NaN is not equal to zero.\<close>

definition strict_ne0 :: "jsnum \<Rightarrow> bool" where
  "strict_ne0 a = (a \<noteq> Num 0)"

section \<open>Arrays\<close>

text \<open>
  \<open>Array.prototype.slice(start, end)\<close>: a negative index counts from the end, and both
  are clamped to the array.
\<close>

definition rel_index :: "int \<Rightarrow> int \<Rightarrow> int" where
  "rel_index len i = (if i < 0 then max (len + i) 0 else min i len)"

definition slice2 :: "'a list \<Rightarrow> int \<Rightarrow> int \<Rightarrow> 'a list" where
  "slice2 xs start fin =
     (let len = int (length xs); k = rel_index len start; e = rel_index len fin
      in take (nat (e - k)) (drop (nat k) xs))"

definition slice1 :: "'a list \<Rightarrow> int \<Rightarrow> 'a list" where
  "slice1 xs start = slice2 xs start (int (length xs))"

section \<open>Trend calculation\<close>

text \<open>\<open>arr.reduce((a,b) => a+b, 0) / arr.length\<close>\<close>

definition avg :: "jsnum list \<Rightarrow> jsnum" where
  "avg arr = jdiv (foldl jadd (Num 0) arr) (Num (real (length arr)))"

definition clamp_trend :: "jsnum \<Rightarrow> jsnum" where
  "clamp_trend change = Math_max (Num (- 1)) (Math_min (Num 1) (jmul change (Num 10)))"

text \<open>
  \<open>calculateTrend\<close> of googleSheetsHelper.v2.js (the same text in the later revision of
  that script). The series is \<open>None\<close> when the caller passes \<open>null\<close>; \<open>periods\<close> is the
  integer \<open>TREND_PERIODS\<close> of the configuration.
\<close>

definition calculateTrend :: "jsnum list option \<Rightarrow> int \<Rightarrow> jsnum" where
  "calculateTrend historical periods =
     (case historical of
        None \<Rightarrow> Num 0
      | Some h \<Rightarrow>
          if int (length h) < periods + 1 then Num 0
          else
            let older = slice2 h 0 (int (length h) - periods);
                recent = slice1 h (- periods)
            in if length older = 0 then Num 0
               else clamp_trend (jdiv (jsub (avg recent) (avg older)) (avg older)))"

text \<open>\<open>calculateTrend\<close> of the earlier market-signal script (\<open>trendPeriods\<close> lookback).\<close>

definition calculateTrend_0 :: "jsnum list option \<Rightarrow> int \<Rightarrow> jsnum" where
  "calculateTrend_0 historicalData periods =
     (case historicalData of
        None \<Rightarrow> Num 0
      | Some h \<Rightarrow>
          if length h < 2 then Num 0
          else
            let recentPeriods = min periods (int (length h));
                recent = slice1 h (- recentPeriods);
                older = slice2 h 0 (- recentPeriods)
            in if length older = 0 then Num 0
               else
                 let recentAvg = jdiv (foldl jadd (Num 0) recent) (Num (real (length recent)));
                     olderAvg = jdiv (foldl jadd (Num 0) older) (Num (real (length older)));
                     percentChange = jdiv (jsub recentAvg olderAvg) olderAvg
                 in clamp_trend percentChange)"

section \<open>Configuration\<close>

text \<open>
  The \<open>CONFIG\<close> object of googleSheetsHelper.v2.js (and \<open>defaultConfig\<close> of the earlier
  script): thresholds of the three configurable ladders, a weight per indicator, the
  trend lookback and the rebalancing parameters. The scripts read it as a global; here
  it is a parameter of every function that reads it.
\<close>

datatype indicator =
  unemployment | usCPI | canCPI | canGDP | vix | yieldCurve | creditSpread

record unemployment_thresholds =
  u_veryLow :: jsnum
  u_low :: jsnum
  u_high :: jsnum
  u_veryHigh :: jsnum

record cpi_thresholds =
  cpi_veryLow :: jsnum
  cpi_target :: jsnum
  cpi_tolerance :: jsnum
  cpi_high :: jsnum

record vix_thresholds =
  vix_low :: jsnum
  vix_normal :: jsnum
  vix_elevated :: jsnum
  vix_high :: jsnum

record thresholds =
  th_unemployment :: unemployment_thresholds
  th_cpi :: cpi_thresholds
  th_vix :: vix_thresholds

record rebalancing =
  minThreshold :: jsnum
  maxSingleMove :: jsnum
  volatilityAdjustment :: bool
  balanceConstraint :: bool

record config =
  THRESHOLDS :: thresholds
  WEIGHTS :: "indicator \<Rightarrow> jsnum option"
  TREND_PERIODS :: int
  REBALANCING :: rebalancing

definition default_thresholds :: thresholds where
  "default_thresholds =
     \<lparr>th_unemployment =
        \<lparr>u_veryLow = Num 3.5, u_low = Num 4.5, u_high = Num 5.5, u_veryHigh = Num 6.5\<rparr>,
      th_cpi =
        \<lparr>cpi_veryLow = Num 1.0, cpi_target = Num 2.0, cpi_tolerance = Num 0.5,
         cpi_high = Num 4.0\<rparr>,
      th_vix =
        \<lparr>vix_low = Num 15, vix_normal = Num 20, vix_elevated = Num 25, vix_high = Num 30\<rparr>\<rparr>"

definition default_rebalancing :: rebalancing where
  "default_rebalancing =
     \<lparr>minThreshold = Num 0.005, maxSingleMove = Num 0.15,
      volatilityAdjustment = True, balanceConstraint = True\<rparr>"

fun CONFIG_WEIGHTS :: "indicator \<Rightarrow> jsnum option" where
  "CONFIG_WEIGHTS unemployment = Some (Num 1.2)"
| "CONFIG_WEIGHTS usCPI = Some (Num 1.2)"
| "CONFIG_WEIGHTS canCPI = Some (Num 0.8)"
| "CONFIG_WEIGHTS canGDP = Some (Num 1.0)"
| "CONFIG_WEIGHTS vix = Some (Num 1.5)"
| "CONFIG_WEIGHTS yieldCurve = Some (Num 1.7)"
| "CONFIG_WEIGHTS creditSpread = Some (Num 1.4)"

definition CONFIG :: config where
  "CONFIG =
     \<lparr>THRESHOLDS = default_thresholds, WEIGHTS = CONFIG_WEIGHTS, TREND_PERIODS = 3,
      REBALANCING = default_rebalancing\<rparr>"

fun defaultConfig_weights :: "indicator \<Rightarrow> jsnum option" where
  "defaultConfig_weights unemployment = Some (Num 1.5)"
| "defaultConfig_weights usCPI = Some (Num 1.2)"
| "defaultConfig_weights canCPI = Some (Num 0.8)"
| "defaultConfig_weights canGDP = Some (Num 1.0)"
| "defaultConfig_weights vix = Some (Num 1.3)"
| "defaultConfig_weights yieldCurve = Some (Num 1.4)"
| "defaultConfig_weights creditSpread = Some (Num 1.1)"

text \<open>\<open>getRebalanceConfig\<close> of the earlier script: \<open>defaultConfig\<close> plus \<open>rebalancing\<close>.\<close>

definition getRebalanceConfig :: config where
  "getRebalanceConfig =
     \<lparr>THRESHOLDS = default_thresholds, WEIGHTS = defaultConfig_weights, TREND_PERIODS = 3,
      REBALANCING = default_rebalancing\<rparr>"

section \<open>Indicator scores\<close>

text \<open>
  A scorer returns an object with a numeric \<open>score\<close> and a text. The text is kept as the
  list of the parts the source concatenates: the decimal rendering of a number
  (\<open>`${curr}`\<close>, \<open>toFixed(n)\<close>) is a part of its own and is not turned into characters.
  The two text properties the source writes, \<open>desc\<close> and \<open>description\<close>, are both
  fields; \<open>None\<close> is a property the object does not have.
\<close>

datatype piece = Text string | NumText jsnum | Fixed nat jsnum

type_synonym jstext = "piece list"

record score_result =
  score :: jsnum
  desc :: "jstext option"
  description :: "jstext option"

definition clamp2 :: "jsnum \<Rightarrow> jsnum" where
  "clamp2 base = Math_max (Num (- 2)) (Math_min (Num 2) base)"

subsection \<open>googleSheetsHelper.v2.js\<close>

text \<open>
  \<open>curr\<close> is \<open>ind.<key>.value\<close>: a number, or \<open>None\<close> for \<open>null\<close> (\<open>curr == null\<close> also
  holds for \<open>undefined\<close>). \<open>hist\<close> is the numeric series, oldest first.
\<close>

definition calculateUnemploymentScore ::
    "config \<Rightarrow> jsnum option \<Rightarrow> jsnum list option \<Rightarrow> score_result" where
  "calculateUnemploymentScore cfg cur hist =
     (case cur of
        None \<Rightarrow> \<lparr>score = Num 0, desc = Some [Text ''No data''], description = None\<rparr>
      | Some c \<Rightarrow>
          let t = th_unemployment (THRESHOLDS cfg);
              d0 = [NumText c, Text ''%''];
              (base, d) =
                (if jlt c (u_veryLow t) then (Num 2, d0 @ [Text '' (Very Low)''])
                 else if jlt c (u_low t) then (Num 1, d0 @ [Text '' (Low)''])
                 else if jgt c (u_veryHigh t) then (Num (- 2), d0 @ [Text '' (Very High)''])
                 else if jgt c (u_high t) then (Num (- 1), d0 @ [Text '' (High)''])
                 else (Num 0, d0 @ [Text '' (Normal)'']));
              adj = calculateTrend hist (TREND_PERIODS cfg);
              (base, d) =
                (if truthy adj
                 then (jsub base (jmul adj (Num 0.5)),
                       d @ [Text (if jgt adj (Num 0) then '' Rising'' else '' Falling'')])
                 else (base, d))
          in \<lparr>score = clamp2 base, desc = None, description = Some d\<rparr>)"

text \<open>The \<open>region\<close> argument of the source is never read.\<close>

definition calculateCPIScore ::
    "config \<Rightarrow> jsnum option \<Rightarrow> jsnum list option \<Rightarrow> score_result" where
  "calculateCPIScore cfg cur hist =
     (case cur of
        None \<Rightarrow> \<lparr>score = Num 0, desc = Some [Text ''No data''], description = None\<rparr>
      | Some c \<Rightarrow>
          let t = th_cpi (THRESHOLDS cfg);
              d0 = [NumText c, Text ''%''];
              (base, d) =
                (if jlt c (cpi_veryLow t) then (Num (- 1), d0 @ [Text '' (Deflation Risk)''])
                 else if jle (Math_abs (jsub c (cpi_target t))) (cpi_tolerance t)
                   then (Num 1, d0 @ [Text '' (On Target)''])
                 else if jgt c (cpi_high t) then (Num (- 2), d0 @ [Text '' (High Inflation)''])
                 else if jgt c (jadd (cpi_target t) (cpi_tolerance t))
                   then (Num (- 1), d0 @ [Text '' (Above Target)''])
                 else (Num 0, d0 @ [Text '' (Below Target)'']));
              adj = calculateTrend hist (TREND_PERIODS cfg);
              (base, d) =
                (if truthy adj
                 then (jsub base (jmul (Math_sign adj) (Num 0.3)),
                       d @ [Text (if jgt adj (Num 0) then '' Rising'' else '' Falling'')])
                 else (base, d))
          in \<lparr>score = clamp2 base, desc = None, description = Some d\<rparr>)"

definition calculateVIXScore ::
    "config \<Rightarrow> jsnum option \<Rightarrow> jsnum list option \<Rightarrow> score_result" where
  "calculateVIXScore cfg cur hist =
     (case cur of
        None \<Rightarrow> \<lparr>score = Num 0, desc = Some [Text ''No data''], description = None\<rparr>
      | Some c \<Rightarrow>
          let t = th_vix (THRESHOLDS cfg);
              d0 = [NumText c];
              (base, d) =
                (if jlt c (vix_low t) then (Num 1, d0 @ [Text '' (Low Vol)''])
                 else if jlt c (vix_normal t) then (Num 0.5, d0 @ [Text '' (Normal)''])
                 else if jlt c (vix_elevated t) then (Num (- 0.5), d0 @ [Text '' (Elevated)''])
                 else if jlt c (vix_high t) then (Num (- 1), d0 @ [Text '' (High)''])
                 else (Num (- 2), d0 @ [Text '' (Very High)'']));
              adj = calculateTrend hist (TREND_PERIODS cfg);
              (base, d) =
                (if truthy adj
                 then (jsub base (jmul adj (Num 0.4)),
                       d @ [Text (if jgt adj (Num 0) then '' Rising'' else '' Falling'')])
                 else (base, d))
          in \<lparr>score = clamp2 base, desc = None, description = Some d\<rparr>)"

definition calculateYieldScore ::
    "config \<Rightarrow> jsnum option \<Rightarrow> jsnum list option \<Rightarrow> score_result" where
  "calculateYieldScore cfg cur hist =
     (case cur of
        None \<Rightarrow> \<lparr>score = Num 0, desc = Some [Text ''No data''], description = None\<rparr>
      | Some c \<Rightarrow>
          let d0 = [NumText c, Text ''%''];
              (base, d) =
                (if jgt c (Num 0.5) then (Num 1, d0 @ [Text '' (Positive)''])
                 else if jgt c (Num (- 0.5)) then (Num 0, d0 @ [Text '' (Flat)''])
                 else if jgt c (Num (- 1.0)) then (Num (- 1), d0 @ [Text '' (Inverted)''])
                 else (Num (- 2), d0 @ [Text '' (Deep Inversion)'']));
              adj = calculateTrend hist (TREND_PERIODS cfg);
              (base, d) =
                (if truthy adj
                 then (jadd base (jmul adj (Num 0.3)),
                       d @ [Text (if jgt adj (Num 0) then '' Steepening'' else '' Flattening'')])
                 else (base, d))
          in \<lparr>score = clamp2 base, desc = None, description = Some d\<rparr>)"

definition calculateCreditScore ::
    "config \<Rightarrow> jsnum option \<Rightarrow> jsnum list option \<Rightarrow> score_result" where
  "calculateCreditScore cfg cur hist =
     (case cur of
        None \<Rightarrow> \<lparr>score = Num 0, desc = Some [Text ''No data''], description = None\<rparr>
      | Some c \<Rightarrow>
          let d0 = [NumText c, Text ''%''];
              (base, d) =
                (if jlt c (Num 1.0) then (Num 1, d0 @ [Text '' (Low)''])
                 else if jlt c (Num 2.0) then (Num 0, d0 @ [Text '' (Normal)''])
                 else if jlt c (Num 3.0) then (Num (- 1), d0 @ [Text '' (Elevated)''])
                 else (Num (- 2), d0 @ [Text '' (High)'']));
              adj = calculateTrend hist (TREND_PERIODS cfg);
              (base, d) =
                (if truthy adj
                 then (jsub base (jmul adj (Num 0.4)),
                       d @ [Text (if jgt adj (Num 0) then '' Widening'' else '' Tightening'')])
                 else (base, d))
          in \<lparr>score = clamp2 base, desc = None, description = Some d\<rparr>)"

text \<open>
  A value read from the outside that is a number or a text: a spreadsheet cell (an empty
  cell is the empty text) and the \<open>value\<close> handed to the GDP scorer.
\<close>

datatype cell = CNum jsnum | CStr string

definition lower_char :: "char \<Rightarrow> char" where
  "lower_char c =
     (let n = (of_char c :: nat) in if 65 \<le> n \<and> n \<le> 90 then char_of (n + 32) else c)"

text \<open>\<open>toLowerCase\<close>, on the ASCII letters.\<close>

definition toLowerCase :: "string \<Rightarrow> string" where
  "toLowerCase s = map lower_char s"

text \<open>\<open>txt.includes(w)\<close>\<close>

fun str_includes :: "string \<Rightarrow> string \<Rightarrow> bool" where
  "str_includes [] w = (w = [])"
| "str_includes (c # cs) w = (take (length w) (c # cs) = w \<or> str_includes cs w)"

text \<open>\<open>words.some(w => txt.includes(w))\<close>\<close>

definition some_included :: "string list \<Rightarrow> string \<Rightarrow> bool" where
  "some_included ws txt = list_ex (str_includes txt) ws"

text \<open>
  \<open>calculateGDPScore\<close>. The caller passes a number or \<open>null\<close>; \<open>!curr\<close> also holds for
  \<open>0\<close>, NaN and the empty text. The decimal text of a number (\<open>curr.toString()\<close>) is
  made of digits, a sign, a point, an exponent mark or the word Infinity, so it holds
  none of the eight words and the score of a number is \<open>0\<close>.
\<close>

definition calculateGDPScore :: "cell option \<Rightarrow> score_result" where
  "calculateGDPScore cur =
     (case cur of
        None \<Rightarrow> \<lparr>score = Num 0, desc = Some [Text ''No data''], description = None\<rparr>
      | Some (CNum x) \<Rightarrow>
          if \<not> truthy x
          then \<lparr>score = Num 0, desc = Some [Text ''No data''], description = None\<rparr>
          else \<lparr>score = Num 0, desc = None, description = Some [NumText x]\<rparr>
      | Some (CStr s) \<Rightarrow>
          if s = []
          then \<lparr>score = Num 0, desc = Some [Text ''No data''], description = None\<rparr>
          else
            let txt = toLowerCase s;
                up = [''rising'', ''positive'', ''increasing'', ''expanding''];
                down = [''falling'', ''negative'', ''decreasing'', ''contracting''];
                base = (if some_included up txt then Num 1
                        else if some_included down txt then Num (- 1) else Num 0)
            in \<lparr>score = base, desc = None, description = Some [Text s]\<rparr>)"

subsection \<open>The earlier market-signal script\<close>

text \<open>
  The scorers of the earlier script take the configuration as an argument, test
  \<open>current === null\<close> and \<open>trendAdjustment !== 0\<close>, and name the text property
  \<open>description\<close> on every path. Their callers pass \<open>parseFloat(...) || null\<close>: a number
  or \<open>None\<close> for \<open>null\<close>.
\<close>

definition calculateUnemploymentScore_0 ::
    "jsnum option \<Rightarrow> jsnum list option \<Rightarrow> config \<Rightarrow> score_result" where
  "calculateUnemploymentScore_0 current historical cfg =
     (case current of
        None \<Rightarrow> \<lparr>score = Num 0, desc = None, description = Some [Text ''No data'']\<rparr>
      | Some c \<Rightarrow>
          let t = th_unemployment (THRESHOLDS cfg);
              d0 = [NumText c, Text ''%''];
              (baseScore, d) =
                (if jlt c (u_veryLow t) then (Num 2, d0 @ [Text '' (Very Low)''])
                 else if jlt c (u_low t) then (Num 1, d0 @ [Text '' (Low)''])
                 else if jgt c (u_veryHigh t) then (Num (- 2), d0 @ [Text '' (Very High)''])
                 else if jgt c (u_high t) then (Num (- 1), d0 @ [Text '' (High)''])
                 else (Num 0, d0 @ [Text '' (Normal)'']));
              trendAdjustment = calculateTrend_0 historical (TREND_PERIODS cfg);
              (baseScore, d) =
                (if strict_ne0 trendAdjustment
                 then (jsub baseScore (jmul trendAdjustment (Num 0.5)),
                       d @ [Text (if jgt trendAdjustment (Num 0)
                                  then '' Rising'' else '' Falling'')])
                 else (baseScore, d))
          in \<lparr>score = clamp2 baseScore, desc = None, description = Some d\<rparr>)"

definition calculateCPIScore_0 ::
    "jsnum option \<Rightarrow> jsnum list option \<Rightarrow> config \<Rightarrow> score_result" where
  "calculateCPIScore_0 current historical cfg =
     (case current of
        None \<Rightarrow> \<lparr>score = Num 0, desc = None, description = Some [Text ''No data'']\<rparr>
      | Some c \<Rightarrow>
          let target = cpi_target (th_cpi (THRESHOLDS cfg));
              tolerance = cpi_tolerance (th_cpi (THRESHOLDS cfg));
              d0 = [NumText c, Text ''%''];
              (baseScore, d) =
                (if jlt c (cpi_veryLow (th_cpi (THRESHOLDS cfg)))
                   then (Num (- 1), d0 @ [Text '' (Deflation Risk)''])
                 else if jle (Math_abs (jsub c target)) tolerance
                   then (Num 1, d0 @ [Text '' (On Target)''])
                 else if jgt c (cpi_high (th_cpi (THRESHOLDS cfg)))
                   then (Num (- 2), d0 @ [Text '' (High Inflation)''])
                 else if jgt c (jadd target tolerance)
                   then (Num (- 1), d0 @ [Text '' (Above Target)''])
                 else (Num 0, d0 @ [Text '' (Below Target)'']));
              trendAdjustment = calculateTrend_0 historical (TREND_PERIODS cfg);
              (baseScore, d) =
                (if strict_ne0 trendAdjustment
                 then ((if jgt c (cpi_veryLow (th_cpi (THRESHOLDS cfg)))
                        then jsub baseScore (jmul trendAdjustment (Num 0.3))
                        else baseScore),
                       d @ [Text (if jgt trendAdjustment (Num 0)
                                  then '' Rising'' else '' Falling'')])
                 else (baseScore, d))
          in \<lparr>score = clamp2 baseScore, desc = None, description = Some d\<rparr>)"

definition calculateVIXScore_0 ::
    "jsnum option \<Rightarrow> jsnum list option \<Rightarrow> config \<Rightarrow> score_result" where
  "calculateVIXScore_0 current historical cfg =
     (case current of
        None \<Rightarrow> \<lparr>score = Num 0, desc = None, description = Some [Text ''No data'']\<rparr>
      | Some c \<Rightarrow>
          let t = th_vix (THRESHOLDS cfg);
              d0 = [Fixed 1 c];
              (baseScore, d) =
                (if jlt c (vix_low t) then (Num 1, d0 @ [Text '' (Low Vol)''])
                 else if jlt c (vix_normal t) then (Num 0.5, d0 @ [Text '' (Normal)''])
                 else if jlt c (vix_elevated t) then (Num (- 0.5), d0 @ [Text '' (Elevated)''])
                 else if jlt c (vix_high t) then (Num (- 1), d0 @ [Text '' (High)''])
                 else (Num (- 2), d0 @ [Text '' (Very High)'']));
              trendAdjustment = calculateTrend_0 historical (TREND_PERIODS cfg);
              (baseScore, d) =
                (if strict_ne0 trendAdjustment
                 then (jsub baseScore (jmul trendAdjustment (Num 0.4)),
                       d @ [Text (if jgt trendAdjustment (Num 0)
                                  then '' Rising'' else '' Falling'')])
                 else (baseScore, d))
          in \<lparr>score = clamp2 baseScore, desc = None, description = Some d\<rparr>)"

datatype js_error = Error string | TypeError string

text \<open>
  \<open>calculateGDPScore\<close> of the earlier script reads the cell of the Indicators sheet
  (\<open>map["Can GDP"] || null\<close>) and calls \<open>current.toLowerCase()\<close> on it: a TypeError when
  the cell holds a number.
\<close>

definition calculateGDPScore_0 :: "cell option \<Rightarrow> js_error + score_result" where
  "calculateGDPScore_0 current =
     (case current of
        None \<Rightarrow> Inr \<lparr>score = Num 0, desc = None, description = Some [Text ''No data'']\<rparr>
      | Some (CNum x) \<Rightarrow>
          if \<not> truthy x
          then Inr \<lparr>score = Num 0, desc = None, description = Some [Text ''No data'']\<rparr>
          else Inl (TypeError ''current.toLowerCase is not a function'')
      | Some (CStr s) \<Rightarrow>
          if s = []
          then Inr \<lparr>score = Num 0, desc = None, description = Some [Text ''No data'']\<rparr>
          else
            let growthTerms = [''rising'', ''growing'', ''increasing'', ''up'', ''positive'',
                               ''expanding''];
                declineTerms = [''falling'', ''declining'', ''decreasing'', ''down'',
                                ''negative'', ''contracting''];
                currentLower = toLowerCase s;
                sc = (if some_included growthTerms currentLower then Num 1
                      else if some_included declineTerms currentLower then Num (- 1)
                      else Num 0)
            in Inr \<lparr>score = sc, desc = None, description = Some [Text s]\<rparr>)"

definition calculateYieldScore_0 ::
    "jsnum option \<Rightarrow> jsnum list option \<Rightarrow> config \<Rightarrow> score_result" where
  "calculateYieldScore_0 current historical cfg =
     (case current of
        None \<Rightarrow> \<lparr>score = Num 0, desc = None, description = Some [Text ''No data'']\<rparr>
      | Some c \<Rightarrow>
          let d0 = [Fixed 2 c, Text ''%''];
              (baseScore, d) =
                (if jgt c (Num 0.5) then (Num 1, d0 @ [Text '' (Positive)''])
                 else if jgt c (Num (- 0.5)) then (Num 0, d0 @ [Text '' (Flat)''])
                 else if jgt c (Num (- 1.0)) then (Num (- 1), d0 @ [Text '' (Inverted)''])
                 else (Num (- 2), d0 @ [Text '' (Deep Inversion)'']));
              trendAdjustment = calculateTrend_0 historical (TREND_PERIODS cfg);
              (baseScore, d) =
                (if strict_ne0 trendAdjustment
                 then (jadd baseScore (jmul trendAdjustment (Num 0.3)),
                       d @ [Text (if jgt trendAdjustment (Num 0)
                                  then '' Steepening'' else '' Flattening'')])
                 else (baseScore, d))
          in \<lparr>score = clamp2 baseScore, desc = None, description = Some d\<rparr>)"

definition calculateCreditScore_0 ::
    "jsnum option \<Rightarrow> jsnum list option \<Rightarrow> config \<Rightarrow> score_result" where
  "calculateCreditScore_0 current historical cfg =
     (case current of
        None \<Rightarrow> \<lparr>score = Num 0, desc = None, description = Some [Text ''No data'']\<rparr>
      | Some c \<Rightarrow>
          let d0 = [Fixed 2 c, Text ''%''];
              (baseScore, d) =
                (if jlt c (Num 1.0) then (Num 1, d0 @ [Text '' (Low)''])
                 else if jlt c (Num 2.0) then (Num 0, d0 @ [Text '' (Normal)''])
                 else if jlt c (Num 3.0) then (Num (- 1), d0 @ [Text '' (Elevated)''])
                 else (Num (- 2), d0 @ [Text '' (High)'']));
              trendAdjustment = calculateTrend_0 historical (TREND_PERIODS cfg);
              (baseScore, d) =
                (if strict_ne0 trendAdjustment
                 then (jsub baseScore (jmul trendAdjustment (Num 0.4)),
                       d @ [Text (if jgt trendAdjustment (Num 0)
                                  then '' Widening'' else '' Tightening'')])
                 else (baseScore, d))
          in \<lparr>score = clamp2 baseScore, desc = None, description = Some d\<rparr>)"

section \<open>Reading numbers from text\<close>

definition is_ws :: "char \<Rightarrow> bool" where
  "is_ws c = ((of_char c :: nat) \<in> {9, 10, 11, 12, 13, 32})"

definition is_digit :: "char \<Rightarrow> bool" where
  "is_digit c = (48 \<le> (of_char c :: nat) \<and> (of_char c :: nat) \<le> 57)"

definition digits_val :: "string \<Rightarrow> nat" where
  "digits_val ds = foldl (\<lambda>a c. 10 * a + ((of_char c :: nat) - 48)) 0 ds"

definition split_sign :: "string \<Rightarrow> bool \<times> string" where
  "split_sign s =
     (case s of
        [] \<Rightarrow> (False, [])
      | c # r \<Rightarrow>
          if c = CHR ''-'' then (True, r) else if c = CHR ''+'' then (False, r) else (False, s))"

definition exponent_of :: "string \<Rightarrow> int" where
  "exponent_of r =
     (case r of
        [] \<Rightarrow> 0
      | c # r1 \<Rightarrow>
          if c = CHR ''e'' \<or> c = CHR ''E''
          then (let (eneg, r2) = split_sign r1; ed = takeWhile is_digit r2
                in if ed = [] then 0
                   else if eneg then - int (digits_val ed) else int (digits_val ed))
          else 0)"

definition pow10 :: "int \<Rightarrow> real" where
  "pow10 e = (if 0 \<le> e then 10 ^ nat e else 1 / 10 ^ nat (- e))"

text \<open>The digits after a point, if the text starts with one, and what follows them.\<close>

definition split_fraction :: "string \<Rightarrow> string \<times> string" where
  "split_fraction r1 =
     (case r1 of
        [] \<Rightarrow> ([], [])
      | c # r \<Rightarrow>
          if c = CHR ''.'' then (takeWhile is_digit r, dropWhile is_digit r) else ([], r1))"

definition parse_unsigned :: "string \<Rightarrow> jsnum" where
  "parse_unsigned s =
     (if take 8 s = ''Infinity'' then PosInf
      else
        let ip = takeWhile is_digit s;
            (fp, r2) = split_fraction (dropWhile is_digit s)
        in if ip = [] \<and> fp = [] then NaN
           else Num ((real (digits_val ip) + real (digits_val fp) / 10 ^ length fp)
                     * pow10 (exponent_of r2)))"

text \<open>
  \<open>parseFloat\<close> of a text: leading white space, a sign, then the longest decimal
  literal (digits, a point, digits, an exponent) or the word Infinity; what follows is
  ignored, and a text with no such prefix gives NaN. White space is the ASCII one.
\<close>

definition parseFloat :: "string \<Rightarrow> jsnum" where
  "parseFloat s =
     (let (neg, r) = split_sign (dropWhile is_ws s); v = parse_unsigned r
      in if neg then jneg v else v)"

text \<open>
  \<open>parseFloat\<close> of a cell. A number is first turned into its decimal text, and
  \<open>parseFloat\<close> reads back from that text the number it was written from; the text itself
  is not modelled. It holds no \<open>%\<close>, so \<open>replace('%','')\<close> and \<open>endsWith("%")\<close> leave a
  number as it is.
\<close>

definition parseFloat_cell :: "cell \<Rightarrow> jsnum" where
  "parseFloat_cell raw = (case raw of CNum x \<Rightarrow> x | CStr s \<Rightarrow> parseFloat s)"

text \<open>\<open>('' + raw).replace('%', '')\<close>: the first \<open>%\<close> is removed.\<close>

definition replace_percent :: "cell \<Rightarrow> cell" where
  "replace_percent raw = (case raw of CNum x \<Rightarrow> CNum x | CStr s \<Rightarrow> CStr (remove1 CHR ''%'' s))"

definition trim :: "string \<Rightarrow> string" where
  "trim s = rev (dropWhile is_ws (rev (dropWhile is_ws s)))"

definition endsWith_percent :: "string \<Rightarrow> bool" where
  "endsWith_percent s = (s \<noteq> [] \<and> last s = CHR ''%'')"

section \<open>The sheets\<close>

text \<open>
  A row of the Asset Allocations sheet is a ticker and a raw allocation cell; a row of
  the Asset Metadata sheet is a key, a class, a region and a sensitivity cell. The
  ticker, class and region columns hold text (an empty cell is the empty text).
  The objects \<open>allocMap\<close>, \<open>classMap\<close>, \<open>regionMap\<close> and \<open>sensMap\<close> are maps; the inherited
  properties of a JavaScript object are not modelled.
\<close>

type_synonym alloc_row = "string \<times> cell"
type_synonym meta_row = "string \<times> string \<times> string \<times> cell"

record allocations =
  allocMap :: "string \<rightharpoonup> jsnum"
  tickers :: "string list"

record metadata =
  classMap :: "string \<rightharpoonup> string"
  regionMap :: "string \<rightharpoonup> string"
  sensMap :: "string \<rightharpoonup> jsnum"

text \<open>The value of \<open>m[t]\<close> in arithmetic: a missing property is \<open>undefined\<close>, that is NaN.\<close>

definition num_at :: "(string \<rightharpoonup> jsnum) \<Rightarrow> string \<Rightarrow> jsnum" where
  "num_at m t = (case m t of None \<Rightarrow> NaN | Some x \<Rightarrow> x)"

text \<open>googleSheetsHelper.v2.js: \<open>parseFloat((''+raw).replace('%',''))/100\<close>\<close>

definition parse_alloc :: "cell \<Rightarrow> jsnum" where
  "parse_alloc raw = jdiv (parseFloat_cell (replace_percent raw)) (Num 100)"

definition load_allocations :: "alloc_row list \<Rightarrow> allocations" where
  "load_allocations allocData =
     foldl (\<lambda>st (t, raw).
              let a = parse_alloc raw
              in if t \<noteq> [] \<and> \<not> isNaN a
                 then \<lparr>allocMap = (allocMap st)(t \<mapsto> a), tickers = tickers st @ [t]\<rparr>
                 else st)
           \<lparr>allocMap = Map.empty, tickers = []\<rparr> allocData"

text \<open>The later revision of the script: a parsed value above \<open>1\<close> is divided by \<open>100\<close>.\<close>

definition parse_alloc_1 :: "cell \<Rightarrow> jsnum" where
  "parse_alloc_1 raw =
     (let a = parseFloat_cell (replace_percent raw)
      in if jgt a (Num 1) then jdiv a (Num 100) else a)"

definition load_allocations_1 :: "alloc_row list \<Rightarrow> allocations" where
  "load_allocations_1 allocData =
     foldl (\<lambda>st (t, raw).
              if t = [] \<or> raw = CStr [] then st
              else \<lparr>allocMap = (allocMap st)(t \<mapsto> parse_alloc_1 raw),
                    tickers = tickers st @ [t]\<rparr>)
           \<lparr>allocMap = Map.empty, tickers = []\<rparr> allocData"

text \<open>
  The earlier script: only a text that ends in \<open>%\<close> (after \<open>trim\<close>) is divided by \<open>100\<close>.
\<close>

definition parse_alloc_0 :: "cell \<Rightarrow> jsnum" where
  "parse_alloc_0 raw =
     (case raw of
        CNum x \<Rightarrow> parseFloat_cell raw
      | CStr s \<Rightarrow>
          if endsWith_percent (trim s) then jdiv (parseFloat_cell raw) (Num 100)
          else parseFloat_cell raw)"

definition load_allocations_0 :: "alloc_row list \<Rightarrow> allocations" where
  "load_allocations_0 allocData =
     foldl (\<lambda>st (t, raw).
              let a = parse_alloc_0 raw
              in if t \<noteq> [] \<and> \<not> isNaN a
                 then \<lparr>allocMap = (allocMap st)(t \<mapsto> a), tickers = tickers st @ [t]\<rparr>
                 else st)
           \<lparr>allocMap = Map.empty, tickers = []\<rparr> allocData"

text \<open>\<open>parseFloat(r[3]) || 1\<close>\<close>

definition parse_sens :: "cell \<Rightarrow> jsnum" where
  "parse_sens c = (let p = parseFloat_cell c in if truthy p then p else Num 1)"

definition load_metadata :: "meta_row list \<Rightarrow> metadata" where
  "load_metadata meta =
     foldl (\<lambda>m (k, cls, region, sens).
              \<lparr>classMap = (classMap m)(k \<mapsto> cls),
               regionMap = (regionMap m)(k \<mapsto> region),
               sensMap = (sensMap m)(k \<mapsto> parse_sens sens)\<rparr>)
           \<lparr>classMap = Map.empty, regionMap = Map.empty, sensMap = Map.empty\<rparr> meta"

section \<open>Market data\<close>

text \<open>
  The fetched data is an input: per indicator the \<open>value\<close> of its reading (\<open>None\<close> for
  \<open>null\<close>) and its historical series. \<open>getEnhancedMarketData\<close> scores the seven
  indicators; \<open>canGDP\<close> has the empty series and its value goes to the GDP scorer.
\<close>

record market =
  scores :: "indicator \<Rightarrow> jsnum"
  config :: config

definition getEnhancedMarketData ::
    "config \<Rightarrow> (indicator \<Rightarrow> jsnum option) \<Rightarrow> (indicator \<Rightarrow> jsnum list) \<Rightarrow> market" where
  "getEnhancedMarketData cfg ind hist =
     \<lparr>scores = (\<lambda>k. case k of
          unemployment \<Rightarrow>
            score (calculateUnemploymentScore cfg (ind unemployment) (Some (hist unemployment)))
        | usCPI \<Rightarrow> score (calculateCPIScore cfg (ind usCPI) (Some (hist usCPI)))
        | canCPI \<Rightarrow> score (calculateCPIScore cfg (ind canCPI) (Some (hist canCPI)))
        | canGDP \<Rightarrow> score (calculateGDPScore (map_option CNum (ind canGDP)))
        | vix \<Rightarrow> score (calculateVIXScore cfg (ind vix) (Some (hist vix)))
        | yieldCurve \<Rightarrow> score (calculateYieldScore cfg (ind yieldCurve) (Some (hist yieldCurve)))
        | creditSpread \<Rightarrow>
            score (calculateCreditScore cfg (ind creditSpread) (Some (hist creditSpread)))),
      config = cfg\<rparr>"

text \<open>
  The earlier script: the numeric readings are \<open>parseFloat(...) || null\<close>, the GDP reading
  is the cell itself, and \<open>historical\<close> is \<open>null\<close> or holds a series (or \<open>null\<close>) for some
  of the indicators. The GDP scorer may throw.
\<close>

definition getEnhancedMarketData_0 ::
    "config \<Rightarrow> (indicator \<Rightarrow> jsnum option) \<Rightarrow> cell option \<Rightarrow>
     (indicator \<Rightarrow> jsnum list option) option \<Rightarrow> js_error + market" where
  "getEnhancedMarketData_0 cfg indicatorData gdp historical =
     (let h = (\<lambda>k. case historical of None \<Rightarrow> None | Some hs \<Rightarrow> hs k)
      in case calculateGDPScore_0 gdp of
           Inl e \<Rightarrow> Inl e
         | Inr g \<Rightarrow>
             Inr \<lparr>scores = (\<lambda>k. case k of
                    unemployment \<Rightarrow>
                      score (calculateUnemploymentScore_0 (indicatorData unemployment)
                               (h unemployment) cfg)
                  | usCPI \<Rightarrow> score (calculateCPIScore_0 (indicatorData usCPI) (h usCPI) cfg)
                  | canCPI \<Rightarrow> score (calculateCPIScore_0 (indicatorData canCPI) (h canCPI) cfg)
                  | canGDP \<Rightarrow> score g
                  | vix \<Rightarrow> score (calculateVIXScore_0 (indicatorData vix) (h vix) cfg)
                  | yieldCurve \<Rightarrow>
                      score (calculateYieldScore_0 (indicatorData yieldCurve) (h yieldCurve) cfg)
                  | creditSpread \<Rightarrow>
                      score (calculateCreditScore_0 (indicatorData creditSpread)
                               (h creditSpread) cfg)),
                  config = cfg\<rparr>)"

section \<open>Regional score and raw shift\<close>

text \<open>The keys of \<open>scores\<close>, in the order \<open>for (const k in scores)\<close> visits them.\<close>

definition score_keys :: "indicator list" where
  "score_keys = [unemployment, usCPI, canCPI, canGDP, vix, yieldCurve, creditSpread]"

text \<open>\<open>cfg.WEIGHTS[k]\<close> in arithmetic: a missing weight is \<open>undefined\<close>, that is NaN.\<close>

definition weight_at :: "config \<Rightarrow> indicator \<Rightarrow> jsnum" where
  "weight_at cfg k = (case WEIGHTS cfg k of None \<Rightarrow> NaN | Some w \<Rightarrow> w)"

text \<open>
  \<open>[[k, m], ...].forEach(([k,m]) => { total += scores[k]*W[k]*m; wsum += W[k]*m; })\<close>
\<close>

definition weighted_sums ::
    "market \<Rightarrow> (indicator \<times> jsnum) list \<Rightarrow> jsnum \<times> jsnum" where
  "weighted_sums mkt kms =
     foldl (\<lambda>(total, wsum) (k, m).
              (jadd total (jmul (jmul (scores mkt k) (weight_at (config mkt) k)) m),
               jadd wsum (jmul (weight_at (config mkt) k) m)))
           (Num 0, Num 0) kms"

definition region_of :: "(string \<rightharpoonup> string) \<Rightarrow> string \<Rightarrow> string" where
  "region_of rm t = (case rm t of None \<Rightarrow> ''Global'' | Some r \<Rightarrow> if r = [] then ''Global'' else r)"

definition getRegionalScore :: "market \<Rightarrow> metadata \<Rightarrow> string \<Rightarrow> jsnum" where
  "getRegionalScore mkt md t =
     (let region = region_of (regionMap md) t;
          (total, wsum) =
            (if region = ''U.S.''
             then weighted_sums mkt
                    [(unemployment, Num 1.5), (usCPI, Num 1.3), (vix, Num 1.2),
                     (yieldCurve, Num 1.1), (creditSpread, Num 1.1)]
             else if region = ''Canada''
             then weighted_sums mkt
                    [(canCPI, Num 1.5), (canGDP, Num 1.4), (unemployment, Num 0.7),
                     (vix, Num 0.8)]
             else foldl (\<lambda>(total, wsum) k.
                           case WEIGHTS (config mkt) k of
                             None \<Rightarrow> (total, wsum)
                           | Some w \<Rightarrow> (jadd total (jmul (scores mkt k) w), jadd wsum w))
                        (Num 0, Num 0) score_keys)
      in if truthy wsum then jdiv total wsum else Num 0)"

text \<open>The seven-step ladder from the regional score to the base shift (both scripts).\<close>

definition base_shift :: "jsnum \<Rightarrow> jsnum" where
  "base_shift regionScore =
     (if jge regionScore (Num 1.5) then Num 0.08
      else if jge regionScore (Num 0.75) then Num 0.05
      else if jge regionScore (Num 0.25) then Num 0.025
      else if jge regionScore (Num (- 0.25)) then Num 0
      else if jge regionScore (Num (- 0.75)) then Num (- 0.025)
      else if jge regionScore (Num (- 1.5)) then Num (- 0.05)
      else Num (- 0.08))"

definition calcDelta :: "market \<Rightarrow> metadata \<Rightarrow> string \<Rightarrow> jsnum" where
  "calcDelta mkt md t =
     (let regionScore = getRegionalScore mkt md t;
          shift = base_shift regionScore;
          shift = jmul shift (num_at (sensMap md) t);
          shift = (if volatilityAdjustment (REBALANCING (config mkt))
                      \<and> jlt (scores mkt vix) (Num (- 1))
                   then jmul shift (Num 0.7) else shift)
      in if classMap md t = Some ''Defensive'' then jneg shift else shift)"

text \<open>The earlier script.\<close>

definition getRegionalScore_0 :: "market \<Rightarrow> metadata \<Rightarrow> string \<Rightarrow> jsnum" where
  "getRegionalScore_0 mkt md ticker =
     (let region = region_of (regionMap md) ticker;
          (totalScore, totalWeight) =
            (if region = ''U.S.''
             then weighted_sums mkt
                    [(unemployment, Num 1.5), (usCPI, Num 1.3), (vix, Num 1.2),
                     (yieldCurve, Num 1.1), (creditSpread, Num 1.1)]
             else if region = ''Canada''
             then weighted_sums mkt
                    [(canCPI, Num 1.5), (canGDP, Num 1.4), (unemployment, Num 0.7),
                     (vix, Num 0.8)]
             else foldl (\<lambda>(totalScore, totalWeight) k.
                           if truthy (weight_at (config mkt) k)
                           then (jadd totalScore (jmul (scores mkt k) (weight_at (config mkt) k)),
                                 jadd totalWeight (weight_at (config mkt) k))
                           else (totalScore, totalWeight))
                        (Num 0, Num 0) score_keys)
      in if jgt totalWeight (Num 0) then jdiv totalScore totalWeight else Num 0)"

definition calculateEnhancedDelta :: "market \<Rightarrow> metadata \<Rightarrow> string \<Rightarrow> jsnum" where
  "calculateEnhancedDelta mkt md ticker =
     (let regionalScore = getRegionalScore_0 mkt md ticker;
          sensitivity = (if truthy (num_at (sensMap md) ticker)
                         then num_at (sensMap md) ticker else Num 1.0);
          assetClass = classMap md ticker;
          baseShift = base_shift regionalScore;
          baseShift = jmul baseShift sensitivity;
          vixScore = (if truthy (scores mkt vix) then scores mkt vix else Num 0);
          baseShift = (if jlt vixScore (Num (- 1)) then jmul baseShift (Num 0.7) else baseShift)
      in if assetClass = Some ''Defensive''
         then (if jgt regionalScore (Num 0) then jneg baseShift else baseShift)
         else (if jgt regionalScore (Num 0) then baseShift else jneg baseShift))"

section \<open>Rebalance signal\<close>

record shifts =
  rawDelta :: "string \<rightharpoonup> jsnum"
  defList :: "string list"
  eqList :: "string list"

text \<open>
  \<open>tickers.forEach(t => { rawDelta[t] = calcDelta(t);
     if (classMap[t] === 'Defensive') defList.push(t); else eqList.push(t); })\<close>
\<close>

definition raw_shifts :: "market \<Rightarrow> metadata \<Rightarrow> string list \<Rightarrow> shifts" where
  "raw_shifts mkt md ts =
     foldl (\<lambda>st t.
              \<lparr>rawDelta = (rawDelta st)(t \<mapsto> calcDelta mkt md t),
               defList = (if classMap md t = Some ''Defensive''
                          then defList st @ [t] else defList st),
               eqList = (if classMap md t = Some ''Defensive''
                         then eqList st else eqList st @ [t])\<rparr>)
           \<lparr>rawDelta = Map.empty, defList = [], eqList = []\<rparr> ts"

text \<open>\<open>list.forEach(t => { net += rawDelta[t]*allocMap[t]; alloc += allocMap[t]; })\<close>\<close>

definition accumulate ::
    "(string \<rightharpoonup> jsnum) \<Rightarrow> (string \<rightharpoonup> jsnum) \<Rightarrow> string list \<Rightarrow> jsnum \<times> jsnum
     \<Rightarrow> jsnum \<times> jsnum" where
  "accumulate rd am ts acc =
     foldl (\<lambda>(net, alloc) t.
              (jadd net (jmul (num_at rd t) (num_at am t)), jadd alloc (num_at am t)))
           acc ts"

text \<open>\<open>list.forEach(t => rawDelta[t] += x)\<close>\<close>

definition add_to_each ::
    "jsnum \<Rightarrow> string list \<Rightarrow> (string \<rightharpoonup> jsnum) \<Rightarrow> (string \<rightharpoonup> jsnum)" where
  "add_to_each x ts rd = foldl (\<lambda>m t. m(t \<mapsto> jadd (num_at m t) x)) rd ts"

text \<open>
  The balance step of googleSheetsHelper.v2.js and of its later revision: the raw
  deltas after the offsets.
\<close>

definition balance_offsets ::
    "config \<Rightarrow> (string \<rightharpoonup> jsnum) \<Rightarrow> shifts \<Rightarrow> (string \<rightharpoonup> jsnum)" where
  "balance_offsets cfg am st =
     (if balanceConstraint (REBALANCING cfg)
      then
        let (net, defAlloc) = accumulate (rawDelta st) am (defList st) (Num 0, Num 0);
            (net, eqAlloc) = accumulate (rawDelta st) am (eqList st) (net, Num 0)
        in if jgt (Math_abs net) (Num 0.001)
           then
             let adj = jdiv (jneg net) (Num 2);
                 rd = (if truthy defAlloc
                       then add_to_each (jdiv adj defAlloc) (defList st) (rawDelta st)
                       else rawDelta st);
                 rd = (if truthy eqAlloc
                       then add_to_each (jdiv adj eqAlloc) (eqList st) rd
                       else rd)
             in rd
           else rawDelta st
      else rawDelta st)"

text \<open>\<open>Math.max(0, allocMap[t] * (1 + rawDelta[t]))\<close>\<close>

definition proposed :: "(string \<rightharpoonup> jsnum) \<Rightarrow> (string \<rightharpoonup> jsnum) \<Rightarrow> string \<Rightarrow> jsnum" where
  "proposed am rd t = Math_max (Num 0) (jmul (num_at am t) (jadd (Num 1) (num_at rd t)))"

text \<open>
  The returned text: \<open>'Hold'\<close>, \<open>`Increase ${(finalD*100).toFixed(2)}%`\<close> or
  \<open>`Decrease ${(Math.abs(finalD)*100).toFixed(2)}%`\<close>.
\<close>

definition format_signal :: "jsnum \<Rightarrow> jsnum \<Rightarrow> jstext" where
  "format_signal finalD minT =
     (if jlt (Math_abs finalD) minT then [Text ''Hold'']
      else if jgt finalD (Num 0)
      then [Text ''Increase '', Fixed 2 (jmul finalD (Num 100)), Text ''%'']
      else [Text ''Decrease '', Fixed 2 (jmul (Math_abs finalD) (Num 100)), Text ''%''])"

text \<open>The normalisation and the final change of the requested ticker.\<close>

definition final_delta ::
    "(string \<rightharpoonup> jsnum) \<Rightarrow> string list \<Rightarrow> (string \<rightharpoonup> jsnum) \<Rightarrow> string \<Rightarrow> jsnum" where
  "final_delta am ts rd assetTicker =
     (let sumNew = foldl (\<lambda>s t. jadd s (proposed am rd t)) (Num 0) ts;
          oldA = num_at am assetTicker;
          newA = jdiv (proposed am rd assetTicker) sumNew
      in jsub (jdiv newA oldA) (Num 1))"

text \<open>
  \<open>GET_REBALANCE_SIGNAL\<close> of googleSheetsHelper.v2.js. The two sheets and the fetched
  readings are arguments; the result is the thrown error or the returned text.
\<close>

definition GET_REBALANCE_SIGNAL ::
    "alloc_row list \<Rightarrow> meta_row list \<Rightarrow> (indicator \<Rightarrow> jsnum option) \<Rightarrow>
     (indicator \<Rightarrow> jsnum list) \<Rightarrow> string \<Rightarrow> js_error + jstext" where
  "GET_REBALANCE_SIGNAL allocData meta ind hist assetTicker =
     (let al = load_allocations allocData;
          md = load_metadata meta
      in if classMap md assetTicker = None
         then Inl (Error (''No metadata for '' @ assetTicker))
         else
           let mkt = getEnhancedMarketData CONFIG ind hist;
               cfg = config mkt;
               st = raw_shifts mkt md (tickers al);
               rd = balance_offsets cfg (allocMap al) st;
               finalD = final_delta (allocMap al) (tickers al) rd assetTicker
           in Inr (format_signal finalD (minThreshold (REBALANCING cfg))))"

text \<open>
  \<open>GET_REBALANCE_SIGNAL\<close> of the later revision of that script: another reading of the
  allocation cells, and no test of the metadata.
\<close>

definition GET_REBALANCE_SIGNAL_1 ::
    "alloc_row list \<Rightarrow> meta_row list \<Rightarrow> (indicator \<Rightarrow> jsnum option) \<Rightarrow>
     (indicator \<Rightarrow> jsnum list) \<Rightarrow> string \<Rightarrow> js_error + jstext" where
  "GET_REBALANCE_SIGNAL_1 allocData meta ind hist assetTicker =
     (let al = load_allocations_1 allocData;
          md = load_metadata meta;
          mkt = getEnhancedMarketData CONFIG ind hist;
          cfg = config mkt;
          st = raw_shifts mkt md (tickers al);
          rd = balance_offsets cfg (allocMap al) st;
          finalDelta = final_delta (allocMap al) (tickers al) rd assetTicker
      in Inr (format_signal finalDelta (minThreshold (REBALANCING cfg))))"

subsection \<open>The earlier script\<close>

text \<open>
  \<open>defList\<close> and \<open>eqList\<close> are the tickers of class \<open>"Defensive"\<close> and of class \<open>"Equity"\<close>;
  every ticker gets \<open>calculateEnhancedDelta\<close>.
\<close>

definition raw_shifts_0 :: "market \<Rightarrow> metadata \<Rightarrow> string list \<Rightarrow> shifts" where
  "raw_shifts_0 mkt md ts =
     \<lparr>rawDelta = foldl (\<lambda>m t. m(t \<mapsto> calculateEnhancedDelta mkt md t)) Map.empty ts,
      defList = filter (\<lambda>t. classMap md t = Some ''Defensive'') ts,
      eqList = filter (\<lambda>t. classMap md t = Some ''Equity'') ts\<rparr>"

definition balance_offsets_0 :: "(string \<rightharpoonup> jsnum) \<Rightarrow> shifts \<Rightarrow> (string \<rightharpoonup> jsnum)" where
  "balance_offsets_0 am st =
     (let (totalDefMove, totalDefAlloc) =
            accumulate (rawDelta st) am (defList st) (Num 0, Num 0);
          (totalEqMove, totalEqAlloc) =
            accumulate (rawDelta st) am (eqList st) (Num 0, Num 0);
          netMove = jadd totalDefMove totalEqMove
      in if jgt (Math_abs netMove) (Num 0.001)
         then
           let adjustment = jdiv (jneg netMove) (Num 2);
               rd = (if jgt totalDefAlloc (Num 0)
                     then add_to_each (jdiv adjustment totalDefAlloc) (defList st) (rawDelta st)
                     else rawDelta st);
               rd = (if jgt totalEqAlloc (Num 0)
                     then add_to_each (jdiv adjustment totalEqAlloc) (eqList st) rd
                     else rd)
           in rd
         else rawDelta st)"

text \<open>
  The market data is computed before the metadata is read, so an error of the GDP scorer
  comes first. The message holds an en dash (three bytes).
\<close>

definition GET_REBALANCE_SIGNAL_0 ::
    "alloc_row list \<Rightarrow> meta_row list \<Rightarrow> (indicator \<Rightarrow> jsnum option) \<Rightarrow> cell option \<Rightarrow>
     (indicator \<Rightarrow> jsnum list option) option \<Rightarrow> string \<Rightarrow> js_error + jstext" where
  "GET_REBALANCE_SIGNAL_0 allocData meta indicatorData gdp historical assetTicker =
     (let al = load_allocations_0 allocData
      in case getEnhancedMarketData_0 getRebalanceConfig indicatorData gdp historical of
           Inl e \<Rightarrow> Inl e
         | Inr marketData \<Rightarrow>
             let md = load_metadata meta
             in if classMap md assetTicker = None
                then Inl (Error (''No metadata for '' @ assetTicker @ '' ''
                                 @ [char_of (226 :: nat), char_of (128 :: nat), char_of (147 :: nat)]
                                 @ '' check Asset Metadata''))
                else
                  let st = raw_shifts_0 marketData md (tickers al);
                      rd = balance_offsets_0 (allocMap al) st;
                      finalD = final_delta (allocMap al) (tickers al) rd assetTicker
                  in Inr (format_signal finalD (Num 0.005)))"

section \<open>Notions used in the statements\<close>

text \<open>A number that is a real between two bounds (so neither an infinity nor NaN).\<close>

definition in_range :: "real \<Rightarrow> real \<Rightarrow> jsnum \<Rightarrow> bool" where
  "in_range lo hi x = (case x of Num a \<Rightarrow> lo \<le> a \<and> a \<le> hi | _ \<Rightarrow> False)"

fun finite_num :: "jsnum \<Rightarrow> bool" where
  "finite_num (Num a) = True"
| "finite_num _ = False"

fun val_of :: "jsnum \<Rightarrow> real" where
  "val_of (Num a) = a"
| "val_of _ = 0"

text \<open>\<open>\<Sigma> delta[t] * allocation[t]\<close> over the tickers, summed as the scripts sum.\<close>

definition weighted_sum ::
    "(string \<rightharpoonup> jsnum) \<Rightarrow> (string \<rightharpoonup> jsnum) \<Rightarrow> string list \<Rightarrow> jsnum" where
  "weighted_sum rd am ts = foldl (\<lambda>s t. jadd s (jmul (num_at rd t) (num_at am t))) (Num 0) ts"

text \<open>The total allocation of a list of tickers.\<close>

definition total_alloc :: "(string \<rightharpoonup> jsnum) \<Rightarrow> string list \<Rightarrow> jsnum" where
  "total_alloc am ts = foldl (\<lambda>s t. jadd s (num_at am t)) (Num 0) ts"


text \<open>
  The base shift scaled by the sensitivity and dampened when the volatility score is below
  \<open>-1\<close>: what \<open>calcDelta\<close> holds in \<open>shift\<close> before it looks at the class.
\<close>

definition dampened_shift :: "market \<Rightarrow> jsnum \<Rightarrow> jsnum \<Rightarrow> jsnum" where
  "dampened_shift mkt regionScore sens =
     (let shift = jmul (base_shift regionScore) sens
      in if volatilityAdjustment (REBALANCING (config mkt)) \<and> jlt (scores mkt vix) (Num (- 1))
         then jmul shift (Num 0.7) else shift)"


section \<open>Example inputs\<close>

text \<open>
  Two assets, one of each class, and readings in which only the unemployment rate is
  known: \<open>3\<close> is below \<open>veryLow\<close>, \<open>7\<close> is above \<open>veryHigh\<close>.
\<close>

definition two_assets_meta :: "meta_row list" where
  "two_assets_meta =
     [(''A'', ''Equity'', ''Global'', CNum (Num 1)),
      (''B'', ''Defensive'', ''Global'', CNum (Num 1))]"

definition low_unemployment :: "indicator \<Rightarrow> jsnum option" where
  "low_unemployment k = (if k = unemployment then Some (Num 3) else None)"

definition high_unemployment :: "indicator \<Rightarrow> jsnum option" where
  "high_unemployment k = (if k = unemployment then Some (Num 7) else None)"

definition no_history :: "indicator \<Rightarrow> jsnum list" where
  "no_history k = []"

section \<open>Properties of the trend calculation\<close>

lemma slice2_prefix_empty:
  "slice2 xs 0 (- int (length xs)) = []"
  by (simp add: slice2_def rel_index_def Let_def)

text \<open>
  C4. A series with fewer than \<open>periods + 1\<close> points has trend exactly \<open>0\<close>, in both
  revisions of the trend calculation.
\<close>

theorem calculateTrend_short_series:
  "int (length h) < periods + 1 \<Longrightarrow>
     calculateTrend (Some h) periods = Num 0 \<and> calculateTrend_0 (Some h) periods = Num 0"
  by (simp add: calculateTrend_def calculateTrend_0_def Let_def min_def slice2_prefix_empty)

theorem calculateTrend_short_series_witness:
  "int (length [Num 4, Num 5]) < 3 + 1 \<and>
     calculateTrend (Some [Num 4, Num 5]) 3 = Num 0 \<and>
     calculateTrend_0 (Some [Num 4, Num 5]) 3 = Num 0"
  using calculateTrend_short_series [of "[Num 4, Num 5]" 3] by simp

lemma clamp_trend_zero_divisor:
  "clamp_trend (jdiv (jsub r (Num 0)) (Num 0)) =
     (if sgn_of r = 0 then NaN else Num (of_int (sgn_of r)))"
  by (cases r) (auto simp: clamp_trend_def jsub_def inf_of_sign_def)

lemma older_nonempty:
  "0 < periods \<Longrightarrow> periods + 1 \<le> int (length h) \<Longrightarrow>
     slice2 h 0 (int (length h) - periods) \<noteq> []"
  by (cases h) (auto simp add: slice2_def rel_index_def Let_def)

lemma older_same:
  "0 < periods \<Longrightarrow> periods + 1 \<le> int (length h) \<Longrightarrow>
     slice2 h 0 (- min periods (int (length h))) = slice2 h 0 (int (length h) - periods)"
  by (simp add: slice2_def rel_index_def Let_def min_def)

text \<open>
  C3, as the code has it. When the average of the older part is \<open>0\<close> neither revision
  returns \<open>0\<close>: the quotient is an infinity or NaN, and the clamp makes it \<open>1\<close>, \<open>-1\<close>
  or NaN, by the sign of the average of the recent part.
\<close>

theorem calculateTrend_zero_older_average:
  assumes "0 < periods" and "periods + 1 \<le> int (length h)"
    and "avg (slice2 h 0 (int (length h) - periods)) = Num 0"
  shows "calculateTrend (Some h) periods =
           (let r = avg (slice1 h (- periods))
            in if sgn_of r = 0 then NaN else Num (of_int (sgn_of r)))
       \<and> calculateTrend_0 (Some h) periods = calculateTrend (Some h) periods
       \<and> calculateTrend (Some h) periods \<noteq> Num 0"
proof -
  let ?older = "slice2 h 0 (int (length h) - periods)"
  let ?r = "avg (slice1 h (- periods))"
  have ne: "?older \<noteq> []"
    using assms(1,2) by (rule older_nonempty)
  have m: "min periods (int (length h)) = periods"
    using assms(2) by simp
  have same: "slice2 h 0 (- periods) = ?older"
    using older_same [OF assms(1,2)] by (simp only: m)
  have l2: "\<not> length h < 2"
    using assms(1,2) by simp
  have a: "calculateTrend (Some h) periods = clamp_trend (jdiv (jsub ?r (Num 0)) (Num 0))"
    using assms(2,3) ne by (simp add: calculateTrend_def Let_def)
  have b: "calculateTrend_0 (Some h) periods = clamp_trend (jdiv (jsub ?r (Num 0)) (Num 0))"
    using assms(3) ne l2 same by (simp add: calculateTrend_0_def Let_def m avg_def)
  show ?thesis
    unfolding a b clamp_trend_zero_divisor Let_def by simp
qed

theorem calculateTrend_zero_older_average_witness:
  "(0::int) < 3 \<and> 3 + 1 \<le> int (length [Num 0, Num 1, Num 1, Num 1])
     \<and> avg (slice2 [Num 0, Num 1, Num 1, Num 1] 0
              (int (length [Num 0, Num 1, Num 1, Num 1 :: jsnum]) - 3)) = Num 0
     \<and> calculateTrend (Some [Num 0, Num 1, Num 1, Num 1]) 3 = Num 1
     \<and> calculateTrend_0 (Some [Num 0, Num 1, Num 1, Num 1]) 3 = Num 1"
proof -
  have o: "avg (slice2 [Num 0, Num 1, Num 1, Num 1] 0
                 (int (length [Num 0, Num 1, Num 1, Num 1 :: jsnum]) - 3)) = Num 0"
    by (simp add: slice2_def rel_index_def avg_def)
  have r: "avg (slice1 [Num 0, Num 1, Num 1, Num 1] (- 3)) = Num 1"
    by (simp add: slice1_def slice2_def rel_index_def avg_def)
  show ?thesis
    using calculateTrend_zero_older_average [of 3 "[Num 0, Num 1, Num 1, Num 1]", OF _ _ o] o
    by (simp add: r)
qed

text \<open>
  The claim as the specification states it fails on the series \<open>[0, 1, 1, 1]\<close> with three
  periods: the older part is \<open>[0]\<close>, its average is \<open>0\<close>, and both revisions return \<open>1\<close>.
\<close>

theorem calculateTrend_zero_older_counterexample:
  "3 + 1 \<le> int (length [Num 0, Num 1, Num 1, Num 1])
     \<and> avg (slice2 [Num 0, Num 1, Num 1, Num 1] 0
              (int (length [Num 0, Num 1, Num 1, Num 1 :: jsnum]) - 3)) = Num 0
     \<and> calculateTrend (Some [Num 0, Num 1, Num 1, Num 1]) 3 = Num 1
     \<and> calculateTrend_0 (Some [Num 0, Num 1, Num 1, Num 1]) 3 = Num 1
     \<and> calculateTrend (Some [Num 0, Num 1, Num 1, Num 1]) 3 \<noteq> Num 0"
  by (simp add: calculateTrend_def calculateTrend_0_def slice2_def slice1_def rel_index_def
        avg_def jsub_def clamp_trend_def inf_of_sign_def)

section \<open>Properties of the indicator scorers\<close>

text \<open>
  C8. In googleSheetsHelper.v2.js (and its later revision) a \<open>null\<close> reading gives score
  \<open>0\<close>, but the text \<open>'No data'\<close> is stored under \<open>desc\<close>: the object has no
  \<open>description\<close>, the property every other return of these functions writes.
\<close>

theorem no_data_result_has_no_description:
  "calculateUnemploymentScore cfg None hist
     = \<lparr>score = Num 0, desc = Some [Text ''No data''], description = None\<rparr>
   \<and> calculateCPIScore cfg None hist
     = \<lparr>score = Num 0, desc = Some [Text ''No data''], description = None\<rparr>
   \<and> calculateVIXScore cfg None hist
     = \<lparr>score = Num 0, desc = Some [Text ''No data''], description = None\<rparr>
   \<and> calculateGDPScore None
     = \<lparr>score = Num 0, desc = Some [Text ''No data''], description = None\<rparr>
   \<and> calculateYieldScore cfg None hist
     = \<lparr>score = Num 0, desc = Some [Text ''No data''], description = None\<rparr>
   \<and> calculateCreditScore cfg None hist
     = \<lparr>score = Num 0, desc = Some [Text ''No data''], description = None\<rparr>
   \<and> description (calculateUnemploymentScore cfg None hist) \<noteq> Some [Text ''No data'']"
  by (simp add: calculateUnemploymentScore_def calculateCPIScore_def calculateVIXScore_def
        calculateGDPScore_def calculateYieldScore_def calculateCreditScore_def)

text \<open>The earlier script does what the claim says: score \<open>0\<close> and description \<open>"No data"\<close>.\<close>

lemma no_data_earlier_script:
  "calculateUnemploymentScore_0 None hist cfg
     = \<lparr>score = Num 0, desc = None, description = Some [Text ''No data'']\<rparr>
   \<and> calculateCPIScore_0 None hist cfg
     = \<lparr>score = Num 0, desc = None, description = Some [Text ''No data'']\<rparr>
   \<and> calculateVIXScore_0 None hist cfg
     = \<lparr>score = Num 0, desc = None, description = Some [Text ''No data'']\<rparr>
   \<and> calculateGDPScore_0 None
     = Inr \<lparr>score = Num 0, desc = None, description = Some [Text ''No data'']\<rparr>
   \<and> calculateYieldScore_0 None hist cfg
     = \<lparr>score = Num 0, desc = None, description = Some [Text ''No data'']\<rparr>
   \<and> calculateCreditScore_0 None hist cfg
     = \<lparr>score = Num 0, desc = None, description = Some [Text ''No data'']\<rparr>"
  by (simp add: calculateUnemploymentScore_0_def calculateCPIScore_0_def calculateVIXScore_0_def
        calculateGDPScore_0_def calculateYieldScore_0_def calculateCreditScore_0_def)



















section \<open>Properties of the allocation parsing\<close>




















section \<open>Properties of the balance step\<close>

lemma finite_num_val: "finite_num x \<Longrightarrow> x = Num (val_of x)"
  by (cases x) simp_all

lemma foldl_jadd_num:
  "\<forall>t\<in>set ts. finite_num (f t) \<Longrightarrow>
     foldl (\<lambda>s t. jadd s (f t)) (Num a) ts = Num (a + sum_list (map (\<lambda>t. val_of (f t)) ts))"
proof (induction ts arbitrary: a)
  case Nil then show ?case by simp
next
  case (Cons t ts)
  then have "finite_num (f t)" by simp
  then obtain v where v: "f t = Num v" by (cases "f t") simp_all
  show ?case using Cons by (simp add: v add.assoc)
qed

lemma finite_num_jmul: "finite_num x \<Longrightarrow> finite_num y \<Longrightarrow> finite_num (jmul x y) \<and> val_of (jmul x y) = val_of x * val_of y"
  by (cases x; cases y) simp_all

lemma weighted_sum_num:
  assumes "\<forall>t\<in>set ts. finite_num (num_at rd t) \<and> finite_num (num_at am t)"
  shows "weighted_sum rd am ts = Num (sum_list (map (\<lambda>t. val_of (num_at rd t) * val_of (num_at am t)) ts))"
proof -
  have "\<forall>t\<in>set ts. finite_num (jmul (num_at rd t) (num_at am t))" using assms finite_num_jmul by blast
  from foldl_jadd_num [OF this, of 0] show ?thesis
    unfolding weighted_sum_def using assms
    by (simp add: finite_num_jmul cong: map_cong)
qed

lemma total_alloc_num:
  assumes "\<forall>t\<in>set ts. finite_num (num_at am t)"
  shows "total_alloc am ts = Num (sum_list (map (\<lambda>t. val_of (num_at am t)) ts))"
  using foldl_jadd_num [OF assms, of 0] by (simp add: total_alloc_def)

lemma accumulate_num:
  "\<forall>t\<in>set ts. finite_num (num_at rd t) \<and> finite_num (num_at am t) \<Longrightarrow>
     accumulate rd am ts (Num n, Num a) =
       (Num (n + sum_list (map (\<lambda>t. val_of (num_at rd t) * val_of (num_at am t)) ts)),
        Num (a + sum_list (map (\<lambda>t. val_of (num_at am t)) ts)))"
proof (induction ts arbitrary: n a)
  case Nil then show ?case by (simp add: accumulate_def)
next
  case (Cons t ts)
  then have "finite_num (num_at rd t)" "finite_num (num_at am t)" by simp_all
  then obtain d v where v: "num_at rd t = Num d" "num_at am t = Num v"
    by (cases "num_at rd t"; cases "num_at am t") simp_all
  have "accumulate rd am (t # ts) (Num n, Num a) = accumulate rd am ts (Num (n + d * v), Num (a + v))"
    by (simp add: accumulate_def v)
  then show ?case using Cons by (simp add: v add.assoc)
qed

lemma num_at_add_to_each:
  "distinct ts \<Longrightarrow>
     num_at (add_to_each x ts rd) t = (if t \<in> set ts then jadd (num_at rd t) x else num_at rd t)"
proof (induction ts arbitrary: rd)
  case Nil then show ?case by (simp add: add_to_each_def)
next
  case (Cons u ts)
  have "add_to_each x (u # ts) rd = add_to_each x ts (rd(u \<mapsto> jadd (num_at rd u) x))"
    by (simp add: add_to_each_def)
  then show ?case using Cons by (auto simp: num_at_def)
qed

lemma sum_list_partition:
  "sum_list (map f xs) = sum_list (map f (filter P xs)) + sum_list (map f (filter (\<lambda>x. \<not> P x) xs))" for f :: "'a \<Rightarrow> real"
  by (induction xs) auto

lemma sum_list_shift:
  "sum_list (map (\<lambda>t. (d t + c) * a t) xs) = sum_list (map (\<lambda>t. d t * a t) xs) + c * sum_list (map a xs)" for c :: real
  by (induction xs) (auto simp: algebra_simps)


lemma offsets_cancel:
  fixes P :: "string \<Rightarrow> bool"
  assumes dist: "distinct ts"
    and fin: "\<forall>t\<in>set ts. finite_num (num_at rd t) \<and> finite_num (num_at am t)"
    and AD: "sum_list (map (\<lambda>t. val_of (num_at am t)) (filter P ts)) \<noteq> 0"
    and AE: "sum_list (map (\<lambda>t. val_of (num_at am t)) (filter (\<lambda>t. \<not> P t) ts)) \<noteq> 0"
  shows "weighted_sum
           (add_to_each
              (Num (x / sum_list (map (\<lambda>t. val_of (num_at am t)) (filter (\<lambda>t. \<not> P t) ts))))
              (filter (\<lambda>t. \<not> P t) ts)
              (add_to_each (Num (x / sum_list (map (\<lambda>t. val_of (num_at am t)) (filter P ts))))
                 (filter P ts) rd))
           am ts
         = Num (sum_list (map (\<lambda>t. val_of (num_at rd t) * val_of (num_at am t)) ts) + 2 * x)"
proof -
  let ?a = "\<lambda>t. val_of (num_at am t)"
  let ?d = "\<lambda>t. val_of (num_at rd t)"
  let ?D = "filter P ts"
  let ?E = "filter (\<lambda>t. \<not> P t) ts"
  let ?AD = "sum_list (map ?a ?D)"
  let ?AE = "sum_list (map ?a ?E)"
  let ?rd1 = "add_to_each (Num (x / ?AD)) ?D rd"
  let ?rd2 = "add_to_each (Num (x / ?AE)) ?E ?rd1"
  let ?d2 = "\<lambda>t. ?d t + (if P t then x / ?AD else x / ?AE)"
  have dD: "distinct ?D" and dE: "distinct ?E" using dist by simp_all
  have v: "num_at ?rd2 t = Num (?d2 t)" if "t \<in> set ts" for t
  proof -
    from fin that have "finite_num (num_at rd t)" by simp
    then obtain dv where n: "num_at rd t = Num dv" by (cases "num_at rd t") simp_all
    show ?thesis
      using that by (simp add: num_at_add_to_each [OF dE] num_at_add_to_each [OF dD] n)
  qed
  have fin2: "\<forall>t\<in>set ts. finite_num (num_at ?rd2 t) \<and> finite_num (num_at am t)"
    using fin v by simp
  have "weighted_sum ?rd2 am ts = Num (sum_list (map (\<lambda>t. val_of (num_at ?rd2 t) * ?a t) ts))"
    by (rule weighted_sum_num [OF fin2])
  also have "(map (\<lambda>t. val_of (num_at ?rd2 t) * ?a t) ts) = map (\<lambda>t. ?d2 t * ?a t) ts"
    using v by (simp cong: map_cong)
  also have "sum_list (map (\<lambda>t. ?d2 t * ?a t) ts)
      = sum_list (map (\<lambda>t. ?d2 t * ?a t) ?D) + sum_list (map (\<lambda>t. ?d2 t * ?a t) ?E)"
    by (rule sum_list_partition)
  also have "map (\<lambda>t. ?d2 t * ?a t) ?D = map (\<lambda>t. (?d t + x / ?AD) * ?a t) ?D"
    by (rule map_cong) simp_all
  also have "map (\<lambda>t. ?d2 t * ?a t) ?E = map (\<lambda>t. (?d t + x / ?AE) * ?a t) ?E"
    by (rule map_cong) simp_all
  also have "sum_list (map (\<lambda>t. (?d t + x / ?AD) * ?a t) ?D)
       = sum_list (map (\<lambda>t. ?d t * ?a t) ?D) + x"
    using AD by (simp add: sum_list_shift)
  also have "sum_list (map (\<lambda>t. (?d t + x / ?AE) * ?a t) ?E)
       = sum_list (map (\<lambda>t. ?d t * ?a t) ?E) + x"
    using AE by (simp add: sum_list_shift)
  finally show ?thesis
    using sum_list_partition [of "\<lambda>t. ?d t * ?a t" ts P] by simp
qed


lemma raw_shifts_snoc:
  "raw_shifts mkt md (ts @ [t]) =
     (let st = raw_shifts mkt md ts
      in \<lparr>rawDelta = (rawDelta st)(t \<mapsto> calcDelta mkt md t),
          defList = (if classMap md t = Some ''Defensive'' then defList st @ [t] else defList st),
          eqList = (if classMap md t = Some ''Defensive'' then eqList st else eqList st @ [t])\<rparr>)"
  by (simp add: raw_shifts_def Let_def)

lemma raw_shifts_lists:
  "defList (raw_shifts mkt md ts) = filter (\<lambda>t. classMap md t = Some ''Defensive'') ts
   \<and> eqList (raw_shifts mkt md ts) = filter (\<lambda>t. \<not> classMap md t = Some ''Defensive'') ts
   \<and> rawDelta (raw_shifts mkt md ts) = (\<lambda>t. if t \<in> set ts then Some (calcDelta mkt md t) else None)"
proof (induction ts rule: rev_induct)
  case Nil
  then show ?case by (simp add: raw_shifts_def)
next
  case (snoc t ts)
  then show ?case by (auto simp: raw_shifts_snoc Let_def)
qed

lemma raw_shifts_0_delta:
  "foldl (\<lambda>m t. m(t \<mapsto> f t)) m0 ts = (\<lambda>t. if t \<in> set ts then Some (f t) else m0 t)"
  by (induction ts rule: rev_induct) auto

lemma balance_offsets_sum:
  fixes P :: "string \<Rightarrow> bool"
  assumes dist: "distinct ts"
    and fin: "\<forall>t\<in>set ts. finite_num (num_at (rawDelta st) t) \<and> finite_num (num_at am t)"
    and dl: "defList st = filter P ts" and el: "eqList st = filter (\<lambda>t. \<not> P t) ts"
    and bc: "balanceConstraint (REBALANCING cfg)"
    and AD: "total_alloc am (defList st) \<noteq> Num 0"
    and AE: "total_alloc am (eqList st) \<noteq> Num 0"
  shows "weighted_sum (balance_offsets cfg am st) am ts =
           (if jgt (Math_abs (weighted_sum (rawDelta st) am ts)) (Num 0.001) then Num 0
            else weighted_sum (rawDelta st) am ts)"
proof -
  let ?rd = "rawDelta st"
  let ?a = "\<lambda>t. val_of (num_at am t)"
  let ?m = "\<lambda>t. val_of (num_at ?rd t) * val_of (num_at am t)"
  let ?D = "filter P ts"
  let ?E = "filter (\<lambda>t. \<not> P t) ts"
  have finD: "\<forall>t\<in>set ?D. finite_num (num_at ?rd t) \<and> finite_num (num_at am t)"
    and finE: "\<forall>t\<in>set ?E. finite_num (num_at ?rd t) \<and> finite_num (num_at am t)"
    using fin by simp_all
  have accD: "accumulate ?rd am ?D (Num 0, Num 0) = (Num (sum_list (map ?m ?D)), Num (sum_list (map ?a ?D)))"
    using accumulate_num [OF finD, of 0 0] by simp
  have accE: "accumulate ?rd am ?E (Num (sum_list (map ?m ?D)), Num 0)
       = (Num (sum_list (map ?m ts)), Num (sum_list (map ?a ?E)))"
    using accumulate_num [OF finE, of "sum_list (map ?m ?D)" 0] sum_list_partition [of ?m ts P] by simp
  have tD: "total_alloc am ?D = Num (sum_list (map ?a ?D))"
    using finD by (intro total_alloc_num) simp
  have tE: "total_alloc am ?E = Num (sum_list (map ?a ?E))"
    using finE by (intro total_alloc_num) simp
  have nzD: "sum_list (map ?a ?D) \<noteq> 0" using AD by (simp add: dl tD)
  have nzE: "sum_list (map ?a ?E) \<noteq> 0" using AE by (simp add: el tE)
  have ws: "weighted_sum ?rd am ts = Num (sum_list (map ?m ts))"
    by (rule weighted_sum_num [OF fin])
  show ?thesis
    using bc nzD nzE offsets_cancel [OF dist fin nzD nzE, of "- sum_list (map ?m ts) / 2"]
    by (simp add: balance_offsets_def dl el accD accE ws Let_def jgt_def)
qed


lemma balance_offsets_0_sum:
  fixes P :: "string \<Rightarrow> bool"
  assumes dist: "distinct ts"
    and fin: "\<forall>t\<in>set ts. finite_num (num_at (rawDelta st) t) \<and> finite_num (num_at am t)"
    and dl: "defList st = filter P ts" and el: "eqList st = filter (\<lambda>t. \<not> P t) ts"
    and AD: "jgt (total_alloc am (defList st)) (Num 0)"
    and AE: "jgt (total_alloc am (eqList st)) (Num 0)"
  shows "weighted_sum (balance_offsets_0 am st) am ts =
           (if jgt (Math_abs (weighted_sum (rawDelta st) am ts)) (Num 0.001) then Num 0
            else weighted_sum (rawDelta st) am ts)"
proof -
  let ?rd = "rawDelta st"
  let ?a = "\<lambda>t. val_of (num_at am t)"
  let ?m = "\<lambda>t. val_of (num_at ?rd t) * val_of (num_at am t)"
  let ?D = "filter P ts"
  let ?E = "filter (\<lambda>t. \<not> P t) ts"
  have finD: "\<forall>t\<in>set ?D. finite_num (num_at ?rd t) \<and> finite_num (num_at am t)"
    and finE: "\<forall>t\<in>set ?E. finite_num (num_at ?rd t) \<and> finite_num (num_at am t)"
    using fin by simp_all
  have accD: "accumulate ?rd am ?D (Num 0, Num 0) = (Num (sum_list (map ?m ?D)), Num (sum_list (map ?a ?D)))"
    using accumulate_num [OF finD, of 0 0] by simp
  have accE: "accumulate ?rd am ?E (Num 0, Num 0) = (Num (sum_list (map ?m ?E)), Num (sum_list (map ?a ?E)))"
    using accumulate_num [OF finE, of 0 0] by simp
  have tD: "total_alloc am ?D = Num (sum_list (map ?a ?D))"
    using finD by (intro total_alloc_num) simp
  have tE: "total_alloc am ?E = Num (sum_list (map ?a ?E))"
    using finE by (intro total_alloc_num) simp
  have pD: "0 < sum_list (map ?a ?D)" using AD by (simp add: dl tD jgt_def)
  have pE: "0 < sum_list (map ?a ?E)" using AE by (simp add: el tE jgt_def)
  have nzD: "sum_list (map ?a ?D) \<noteq> 0" using pD by simp
  have nzE: "sum_list (map ?a ?E) \<noteq> 0" using pE by simp
  have ws: "weighted_sum ?rd am ts = Num (sum_list (map ?m ts))"
    by (rule weighted_sum_num [OF fin])
  have part: "sum_list (map ?m ?D) + sum_list (map ?m ?E) = sum_list (map ?m ts)"
    using sum_list_partition [of ?m ts P] by simp
  show ?thesis
    using pD pE offsets_cancel [OF dist fin nzD nzE, of "- sum_list (map ?m ts) / 2"]
    by (simp add: balance_offsets_0_def dl el accD accE ws Let_def jgt_def part)
qed

text \<open>
  C1, as the code has it. The offsets are applied only when the raw weighted sum exceeds
  \<open>0.001\<close> in magnitude. For distinct tickers with finite allocations and raw deltas,
  when neither bucket total is zero (positive, in the earlier script, where every
  ticker is of class Defensive or Equity), the weighted sum after the balance step is
  \<open>0\<close> if the offsets were applied, and in every case within \<open>0.001\<close> of zero.
\<close>

theorem balance_offsets_within_gate:
  assumes "distinct ts" and "\<forall>t\<in>set ts. finite_num (num_at am t)"
  shows "((\<forall>t\<in>set ts. finite_num (calcDelta mkt md t))
          \<and> balanceConstraint (REBALANCING cfg)
          \<and> total_alloc am (defList (raw_shifts mkt md ts)) \<noteq> Num 0
          \<and> total_alloc am (eqList (raw_shifts mkt md ts)) \<noteq> Num 0
        \<longrightarrow> in_range (- 0.001) 0.001
              (weighted_sum (balance_offsets cfg am (raw_shifts mkt md ts)) am ts)
          \<and> (jgt (Math_abs (weighted_sum (rawDelta (raw_shifts mkt md ts)) am ts)) (Num 0.001)
               \<longrightarrow> weighted_sum (balance_offsets cfg am (raw_shifts mkt md ts)) am ts = Num 0))
     \<and> ((\<forall>t\<in>set ts. finite_num (calculateEnhancedDelta mkt md t))
          \<and> (\<forall>t\<in>set ts. classMap md t = Some ''Defensive'' \<or> classMap md t = Some ''Equity'')
          \<and> jgt (total_alloc am (defList (raw_shifts_0 mkt md ts))) (Num 0)
          \<and> jgt (total_alloc am (eqList (raw_shifts_0 mkt md ts))) (Num 0)
        \<longrightarrow> in_range (- 0.001) 0.001
              (weighted_sum (balance_offsets_0 am (raw_shifts_0 mkt md ts)) am ts)
          \<and> (jgt (Math_abs (weighted_sum (rawDelta (raw_shifts_0 mkt md ts)) am ts)) (Num 0.001)
               \<longrightarrow> weighted_sum (balance_offsets_0 am (raw_shifts_0 mkt md ts)) am ts = Num 0))"
proof (intro conjI impI; (elim conjE)?)
  let ?P = "\<lambda>t. classMap md t = Some ''Defensive''"
  let ?st = "raw_shifts mkt md ts"
  assume d: "\<forall>t\<in>set ts. finite_num (calcDelta mkt md t)"
    and bc: "balanceConstraint (REBALANCING cfg)"
    and AD: "total_alloc am (defList ?st) \<noteq> Num 0"
    and AE: "total_alloc am (eqList ?st) \<noteq> Num 0"
  have fin: "\<forall>t\<in>set ts. finite_num (num_at (rawDelta ?st) t) \<and> finite_num (num_at am t)"
    using d assms(2) by (simp add: raw_shifts_lists num_at_def)
  have e: "weighted_sum (balance_offsets cfg am ?st) am ts =
           (if jgt (Math_abs (weighted_sum (rawDelta ?st) am ts)) (Num 0.001) then Num 0
            else weighted_sum (rawDelta ?st) am ts)"
    using balance_offsets_sum [OF assms(1) fin _ _ bc AD AE, of ?P] by (simp add: raw_shifts_lists)
  obtain n where n: "weighted_sum (rawDelta ?st) am ts = Num n"
    using weighted_sum_num [OF fin] by simp
  show "in_range (- 0.001) 0.001 (weighted_sum (balance_offsets cfg am ?st) am ts)"
    unfolding e n by (auto simp add: in_range_def jgt_def abs_if split: if_splits)
  show "weighted_sum (balance_offsets cfg am ?st) am ts = Num 0" 
    if "jgt (Math_abs (weighted_sum (rawDelta ?st) am ts)) (Num 0.001)"
    using that e by simp
next
  let ?P = "\<lambda>t. classMap md t = Some ''Defensive''"
  let ?st = "raw_shifts_0 mkt md ts"
  assume d: "\<forall>t\<in>set ts. finite_num (calculateEnhancedDelta mkt md t)"
    and cl: "\<forall>t\<in>set ts. classMap md t = Some ''Defensive'' \<or> classMap md t = Some ''Equity''"
    and AD: "jgt (total_alloc am (defList ?st)) (Num 0)"
    and AE: "jgt (total_alloc am (eqList ?st)) (Num 0)"
  have fin: "\<forall>t\<in>set ts. finite_num (num_at (rawDelta ?st) t) \<and> finite_num (num_at am t)"
    using d assms(2) by (simp add: raw_shifts_0_def raw_shifts_0_delta num_at_def)
  have dl: "defList ?st = filter ?P ts" by (simp add: raw_shifts_0_def)
  have el: "eqList ?st = filter (\<lambda>t. \<not> ?P t) ts"
    unfolding raw_shifts_0_def using cl by (auto intro: filter_cong)
  have e: "weighted_sum (balance_offsets_0 am ?st) am ts =
           (if jgt (Math_abs (weighted_sum (rawDelta ?st) am ts)) (Num 0.001) then Num 0
            else weighted_sum (rawDelta ?st) am ts)"
    by (rule balance_offsets_0_sum [OF assms(1) fin dl el AD AE])
  obtain n where n: "weighted_sum (rawDelta ?st) am ts = Num n"
    using weighted_sum_num [OF fin] by simp
  show "in_range (- 0.001) 0.001 (weighted_sum (balance_offsets_0 am ?st) am ts)"
    unfolding e n by (auto simp add: in_range_def jgt_def abs_if split: if_splits)
  show "weighted_sum (balance_offsets_0 am ?st) am ts = Num 0" 
    if "jgt (Math_abs (weighted_sum (rawDelta ?st) am ts)) (Num 0.001)"
    using that e by simp
qed


theorem balance_offsets_within_gate_witness:
  "(let am = allocMap (load_allocations [(''A'', CNum (Num 40)), (''B'', CNum (Num 60))]);
        md = load_metadata two_assets_meta;
        mkt = getEnhancedMarketData CONFIG high_unemployment no_history;
        mkt0 = projr (getEnhancedMarketData_0 getRebalanceConfig high_unemployment None None);
        am0 = allocMap (load_allocations_0 [(''A'', CStr ''40%''), (''B'', CStr ''60%'')]);
        ts = [''A'', ''B'']
    in distinct ts \<and> finite_num (num_at am ''A'') \<and> finite_num (num_at am ''B'')
       \<and> finite_num (calcDelta mkt md ''A'') \<and> finite_num (calcDelta mkt md ''B'')
       \<and> balanceConstraint (REBALANCING CONFIG)
       \<and> total_alloc am (defList (raw_shifts mkt md ts)) \<noteq> Num 0
       \<and> total_alloc am (eqList (raw_shifts mkt md ts)) \<noteq> Num 0
       \<and> jgt (Math_abs (weighted_sum (rawDelta (raw_shifts mkt md ts)) am ts)) (Num 0.001)
       \<and> weighted_sum (balance_offsets CONFIG am (raw_shifts mkt md ts)) am ts = Num 0
       \<and> finite_num (num_at am0 ''A'') \<and> finite_num (num_at am0 ''B'')
       \<and> finite_num (calculateEnhancedDelta mkt0 md ''A'') \<and> finite_num (calculateEnhancedDelta mkt0 md ''B'')
       \<and> jgt (total_alloc am0 (defList (raw_shifts_0 mkt0 md ts))) (Num 0)
       \<and> jgt (total_alloc am0 (eqList (raw_shifts_0 mkt0 md ts))) (Num 0)
       \<and> jgt (Math_abs (weighted_sum (rawDelta (raw_shifts_0 mkt0 md ts)) am0 ts)) (Num 0.001)
       \<and> weighted_sum (balance_offsets_0 am0 (raw_shifts_0 mkt0 md ts)) am0 ts = Num 0)"
proof -
  let ?am = "allocMap (load_allocations [(''A'', CNum (Num 40)), (''B'', CNum (Num 60))])"
  let ?md = "load_metadata two_assets_meta"
  let ?mkt = "getEnhancedMarketData CONFIG high_unemployment no_history"
  let ?mktz = "projr (getEnhancedMarketData_0 getRebalanceConfig high_unemployment None None)"
  let ?amz = "allocMap (load_allocations_0 [(''A'', CStr ''40%''), (''B'', CStr ''60%'')])"
  let ?ts = "[''A'', ''B'']"
  have d: "distinct ?ts" by simp
  have a: "finite_num (num_at ?am ''A'') \<and> finite_num (num_at ?am ''B'')" by code_simp
  have c: "finite_num (calcDelta ?mkt ?md ''A'') \<and> finite_num (calcDelta ?mkt ?md ''B'')" by code_simp
  have b: "balanceConstraint (REBALANCING CONFIG)" by code_simp
  have t: "total_alloc ?am (defList (raw_shifts ?mkt ?md ?ts)) \<noteq> Num 0
         \<and> total_alloc ?am (eqList (raw_shifts ?mkt ?md ?ts)) \<noteq> Num 0" by code_simp
  have g: "jgt (Math_abs (weighted_sum (rawDelta (raw_shifts ?mkt ?md ?ts)) ?am ?ts)) (Num 0.001)"
    by code_simp
  have a0: "finite_num (num_at ?amz ''A'') \<and> finite_num (num_at ?amz ''B'')" by code_simp
  have c0: "finite_num (calculateEnhancedDelta ?mktz ?md ''A'') \<and> finite_num (calculateEnhancedDelta ?mktz ?md ''B'')" by code_simp
  have cl: "(classMap ?md ''A'' = Some ''Defensive'' \<or> classMap ?md ''A'' = Some ''Equity'')
       \<and> (classMap ?md ''B'' = Some ''Defensive'' \<or> classMap ?md ''B'' = Some ''Equity'')" by code_simp
  have t0: "jgt (total_alloc ?amz (defList (raw_shifts_0 ?mktz ?md ?ts))) (Num 0)
         \<and> jgt (total_alloc ?amz (eqList (raw_shifts_0 ?mktz ?md ?ts))) (Num 0)" by code_simp
  have g0: "jgt (Math_abs (weighted_sum (rawDelta (raw_shifts_0 ?mktz ?md ?ts)) ?amz ?ts)) (Num 0.001)"
    by code_simp
  have A: "\<forall>t\<in>set ?ts. finite_num (num_at ?am t)" using a by simp
  have A0: "\<forall>t\<in>set ?ts. finite_num (num_at ?amz t)" using a0 by simp
  have C: "\<forall>t\<in>set ?ts. finite_num (calcDelta ?mkt ?md t)" using c by simp
  have C0: "\<forall>t\<in>set ?ts. finite_num (calculateEnhancedDelta ?mktz ?md t)" using c0 by simp
  have CL: "\<forall>t\<in>set ?ts. classMap ?md t = Some ''Defensive'' \<or> classMap ?md t = Some ''Equity''" using cl by simp
  have r: "weighted_sum (balance_offsets CONFIG ?am (raw_shifts ?mkt ?md ?ts)) ?am ?ts = Num 0"
    using balance_offsets_within_gate [OF d A, of ?mkt ?md CONFIG] C b t g by blast
  have r0: "weighted_sum (balance_offsets_0 ?amz (raw_shifts_0 ?mktz ?md ?ts)) ?amz ?ts = Num 0"
    using balance_offsets_within_gate [OF d A0, of ?mktz ?md CONFIG] C0 CL t0 g0 by blast
  show ?thesis
    unfolding Let_def using d a c b t g r a0 c0 t0 g0 r0 by blast
qed

text \<open>
  The claim as the specification states it fails when the raw weighted sum is not above
  the gate: with \<open>51%\<close> in the equity asset, \<open>49%\<close> in the defensive one and raw deltas
  \<open>0.025\<close> and \<open>-0.025\<close>, the sum is \<open>0.0005\<close>, no offset is applied, and the result is
  not within \<open>0.000001\<close> of zero though both bucket totals are non-zero.
\<close>

theorem balance_offsets_counterexample:
  "(let al = load_allocations [(''A'', CStr ''51%''), (''B'', CStr ''49%'')];
        md = load_metadata two_assets_meta;
        mkt = getEnhancedMarketData CONFIG low_unemployment no_history;
        st = raw_shifts mkt md (tickers al);
        rd = balance_offsets CONFIG (allocMap al) st
    in tickers al = [''A'', ''B'']
       \<and> num_at (rawDelta st) ''A'' = Num (1 / 40) \<and> num_at (rawDelta st) ''B'' = Num (- (1 / 40))
       \<and> total_alloc (allocMap al) (defList st) = Num (49 / 100)
       \<and> total_alloc (allocMap al) (eqList st) = Num (51 / 100)
       \<and> weighted_sum rd (allocMap al) (tickers al) = Num (1 / 2000)
       \<and> \<not> in_range (- 0.000001) 0.000001 (weighted_sum rd (allocMap al) (tickers al)))"
  by code_simp

section \<open>Properties of the raw shift\<close>

lemma calcDelta_by_class:
  "calcDelta mkt md t =
     (if classMap md t = Some ''Defensive''
      then jneg (dampened_shift mkt (getRegionalScore mkt md t) (num_at (sensMap md) t))
      else dampened_shift mkt (getRegionalScore mkt md t) (num_at (sensMap md) t))"
  by (simp add: calcDelta_def dampened_shift_def Let_def)

lemma base_shift_negative:
  "jlt r (Num 0) \<Longrightarrow> \<exists>b. base_shift r = Num b \<and> b \<le> 0"
  by (cases r) (auto simp: base_shift_def jge_def)

text \<open>
  \<open>calcDelta\<close> of googleSheetsHelper.v2.js and of its later revision does what C5 says:
  the shift is negated exactly for class Defensive, and a growth asset with a positive
  sensitivity gets a non-positive delta from a negative regional score.
\<close>

lemma calcDelta_growth_nonpositive:
  assumes "classMap md t \<noteq> Some ''Defensive''" and "sensMap md t = Some (Num s)" and "0 < s"
    and "jlt (getRegionalScore mkt md t) (Num 0)"
  shows "jle (calcDelta mkt md t) (Num 0)"
proof -
  from base_shift_negative [OF assms(4)] obtain b
    where b: "base_shift (getRegionalScore mkt md t) = Num b" "b \<le> 0" by blast
  have "\<not> 0 < b * s"
    using b(2) assms(3) by (simp add: zero_less_mult_iff)
  then show ?thesis
    using assms(1,2) b(1)
    by (simp add: calcDelta_by_class dampened_shift_def num_at_def Let_def)
qed

text \<open>
  C5. \<open>calculateEnhancedDelta\<close> of the earlier script flips the sign a second time by
  the sign of the regional score. With an unemployment rate of \<open>7\<close> and no other reading
  the regional score of the equity asset \<open>A\<close> is \<open>-30/83\<close> and the ladder gives \<open>-0.025\<close>,
  but the raw delta is \<open>+0.025\<close> and the signal is an increase; \<open>calcDelta\<close> gives
  \<open>-0.025\<close> and a decrease on the same sheets.
\<close>

theorem calculateEnhancedDelta_growth_negative_score:
  "map_sum id
     (\<lambda>m. (getRegionalScore_0 m (load_metadata two_assets_meta) ''A'',
            base_shift (getRegionalScore_0 m (load_metadata two_assets_meta) ''A''),
            calculateEnhancedDelta m (load_metadata two_assets_meta) ''A''))
     (getEnhancedMarketData_0 getRebalanceConfig high_unemployment None None)
     = Inr (Num (- (30 / 83)), Num (- (1 / 40)), Num (1 / 40))
   \<and> GET_REBALANCE_SIGNAL_0 [(''A'', CStr ''40%''), (''B'', CStr ''60%'')] two_assets_meta
        high_unemployment None None ''A''
     = Inr [Text ''Increase '', Fixed 2 (Num (25 / 8)), Text ''%'']
   \<and> calcDelta (getEnhancedMarketData CONFIG high_unemployment no_history)
        (load_metadata two_assets_meta) ''A'' = Num (- (1 / 40))
   \<and> GET_REBALANCE_SIGNAL [(''A'', CStr ''40%''), (''B'', CStr ''60%'')] two_assets_meta
        high_unemployment no_history ''A''
     = Inr [Text ''Decrease '', Fixed 2 (Num (25 / 8)), Text ''%'']"
  by code_simp




section \<open>Properties of the rebalance signal\<close>

text \<open>
  googleSheetsHelper.v2.js throws when the requested ticker has no metadata, and so does
  the earlier script once the market data is there.
\<close>

lemma unknown_ticker_rejected:
  "classMap (load_metadata meta) x = None \<Longrightarrow>
     GET_REBALANCE_SIGNAL allocData meta ind hist x = Inl (Error (''No metadata for '' @ x))"
  by (simp add: GET_REBALANCE_SIGNAL_def Let_def)

lemma unknown_ticker_rejected_0:
  "classMap (load_metadata meta) x = None \<Longrightarrow>
   getEnhancedMarketData_0 getRebalanceConfig ind gdp historical = Inr m \<Longrightarrow>
     \<exists>msg. GET_REBALANCE_SIGNAL_0 allocData meta ind gdp historical x = Inl (Error msg)
           \<and> take 16 msg = ''No metadata for ''"
  by (simp add: GET_REBALANCE_SIGNAL_0_def Let_def)

text \<open>
  C7. The later revision of the v2 script has lost the metadata test. A ticker \<open>C\<close>
  with no metadata row gets the text \<open>Decrease NaN%\<close>, whether or not it is in the
  allocation table; googleSheetsHelper.v2.js throws \<open>No metadata for C\<close> on the same sheets.
\<close>

theorem later_revision_unknown_ticker:
  "classMap (load_metadata two_assets_meta) ''C'' = None
   \<and> GET_REBALANCE_SIGNAL_1 [(''A'', CNum (Num 40)), (''B'', CNum (Num 60))] two_assets_meta
        high_unemployment no_history ''C''
     = Inr [Text ''Decrease '', Fixed 2 NaN, Text ''%'']
   \<and> GET_REBALANCE_SIGNAL_1 [(''A'', CNum (Num 40)), (''B'', CNum (Num 40)), (''C'', CNum (Num 20))]
        two_assets_meta high_unemployment no_history ''C''
     = Inr [Text ''Decrease '', Fixed 2 NaN, Text ''%'']
   \<and> GET_REBALANCE_SIGNAL [(''A'', CNum (Num 40)), (''B'', CNum (Num 60))] two_assets_meta
        high_unemployment no_history ''C''
     = Inl (Error ''No metadata for C'')"
  by code_simp







end
